theory Spec2Isabelle
  imports Main
begin

section \<open>The credential store (prisma schema)\<close>

text \<open>
  The tables of the Prisma schema that the authentication controller reads and writes.
  Column names carry a prefix per table, since record fields are global constants.
  The bookkeeping columns \<open>created_at\<close> and \<open>updated_at\<close> are not modelled: no handler
  reads them. Times are milliseconds since the epoch (\<open>Date.now()\<close>); the expiry of a
  JSON web token is in seconds, as \<open>jsonwebtoken\<close> has it.
\<close>

datatype verify_type = EMAIL | PASSWORD_RESET

text \<open>
  The \<open>user\<close> object inside a token payload. A JSON object drops the fields that are
  \<open>undefined\<close>, so every field is optional: access and refresh tokens carry
  \<open>{email, role}\<close>, reset tokens carry \<open>{id, role}\<close>.
\<close>

datatype payload = Payload (p_email: "string option") (p_id: "nat option") (p_role: "string option")

text \<open>
  A token string is either a JSON web token, given by its payload, the secret it was
  signed with, \<open>iat\<close> and \<open>exp\<close> (seconds), or any other string.
\<close>

datatype token = JWT (jwt_payload: payload) (jwt_secret: string) (jwt_iat: nat) (jwt_exp: nat)
  | Raw string

text \<open>A bcrypt hash: cost factor, salt, and the password it was computed from.\<close>

datatype pwhash = Bcrypt (bc_cost: nat) (bc_salt: string) (bc_plain: string)

record principal =
  u_id :: nat
  u_name :: string
  u_email :: string
  u_password :: pwhash
  u_email_verified_at :: "nat option"
  u_is_suspended :: bool
  u_school :: "string option"

record personal_token =
  pt_id :: nat
  pt_admin_id :: "nat option"
  pt_teacher_id :: "nat option"
  pt_student_id :: "nat option"
  pt_user_device :: "string option"
  pt_refresh_token :: token
  pt_expires_at :: nat

record verification_token =
  vt_id :: nat
  vt_admin_id :: "nat option"
  vt_teacher_id :: "nat option"
  vt_student_id :: "nat option"
  vt_code :: int
  vt_token :: string
  vt_verify_type :: verify_type
  vt_expires_at :: nat

text \<open>
  The store: one list per table, in the order the database returns the rows, and the
  next value of each autoincrement sequence the controller draws from.
\<close>

record db =
  admins :: "principal list"
  teachers :: "principal list"
  students :: "principal list"
  personal_tokens :: "personal_token list"
  verification_tokens :: "verification_token list"
  seq_admins :: nat
  seq_personal_tokens :: nat
  seq_verification_tokens :: nat

section \<open>Errors, environment, request and response\<close>

datatype error =
    HttpError nat string
  | TypeError string
  | PrismaError string
  | ERR_HTTP_HEADERS_SENT
  | MailError

text \<open>\<open>process.env\<close>: the three signing secrets.\<close>

record env =
  ACCESS_TOKEN_SECRET :: string
  REFRESH_TOKEN_SECRET :: string
  RESET_TOKEN_SECRET :: string

text \<open>
  What a handler draws from outside during one request: the clock, the result of
  \<open>Math.floor(10000000 + Math.random() * 90000000)\<close>, the \<open>uuidv4()\<close> string, the bcrypt
  salt, and whether \<open>mailTransporter.sendMail\<close> resolves.
\<close>

record sys =
  now_ms :: nat
  rand_code :: int
  uuid :: string
  salt :: string
  mail_ok :: bool

text \<open>
  \<open>req.user\<close>, set by the authentication middleware (outside this controller): the
  fields the handlers read.
\<close>

record req_user =
  ru_id :: nat
  ru_email :: string
  ru_role :: string
  ru_email_verified_at :: "nat option"

datatype body =
    Message string
  | AccessToken token
  | MessageAccessToken string token
  | MessageToken string token

datatype cookie_op = SetCookie string token | ClearCookie string

text \<open>
  The Express response object: the status set by \<open>res.status\<close>, the response that went
  out (the first \<open>res.json\<close>), and the cookie headers. Once a response is out, a further
  \<open>res.json\<close>, \<open>res.cookie\<close> or \<open>res.clearCookie\<close> throws \<open>ERR_HTTP_HEADERS_SENT\<close>.
\<close>

record res =
  statusCode :: nat
  sent :: "(nat \<times> body) option"
  cookie_ops :: "cookie_op list"

definition res0 :: res where
  "res0 = \<lparr>statusCode = 200, sent = None, cookie_ops = []\<rparr>"

definition res_status :: "nat \<Rightarrow> res \<Rightarrow> res" where
  "res_status c r = r\<lparr>statusCode := c\<rparr>"

definition res_json :: "body \<Rightarrow> res \<Rightarrow> error + res" where
  "res_json b r =
     (if sent r = None then Inr (r\<lparr>sent := Some (statusCode r, b)\<rparr>)
      else Inl ERR_HTTP_HEADERS_SENT)"

definition res_cookie :: "string \<Rightarrow> token \<Rightarrow> res \<Rightarrow> error + res" where
  "res_cookie name v r =
     (if sent r = None then Inr (r\<lparr>cookie_ops := cookie_ops r @ [SetCookie name v]\<rparr>)
      else Inl ERR_HTTP_HEADERS_SENT)"

definition res_clearCookie :: "string \<Rightarrow> res \<Rightarrow> error + res" where
  "res_clearCookie name r =
     (if sent r = None then Inr (r\<lparr>cookie_ops := cookie_ops r @ [ClearCookie name]\<rparr>)
      else Inl ERR_HTTP_HEADERS_SENT)"

text \<open>
  What a handler leaves behind: the store, the response object, and the error handed to
  \<open>next\<close> by \<open>asyncHandler\<close> (or lost as an unhandled rejection), if any.
\<close>

record outcome =
  o_db :: db
  o_res :: res
  o_err :: "error option"

definition bindE :: "error + 'a \<Rightarrow> ('a \<Rightarrow> error + 'b) \<Rightarrow> error + 'b" where
  "bindE x f = (case x of Inl e \<Rightarrow> Inl e | Inr a \<Rightarrow> f a)"

text \<open>
  The end of a handler whose last statement writes to the response: on success the
  writes to the store stand, on a throw the transaction rolls them back.
\<close>

definition reply :: "db \<Rightarrow> db \<Rightarrow> res \<Rightarrow> error + res \<Rightarrow> outcome" where
  "reply committed rolled_back r x =
     (case x of
        Inl e \<Rightarrow> \<lparr>o_db = rolled_back, o_res = r, o_err = Some e\<rparr>
      | Inr r' \<Rightarrow> \<lparr>o_db = committed, o_res = r', o_err = None\<rparr>)"

section \<open>Libraries: jsonwebtoken, bcrypt, Prisma queries\<close>

text \<open>
  \<open>jwt.sign(payload, secret, {expiresIn})\<close>: \<open>iat\<close> is the clock in seconds, \<open>exp\<close> is
  \<open>iat\<close> plus the lifetime (\<open>'1d'\<close> = 86400, \<open>'7d'\<close> = 604800, \<open>'2m'\<close> = 120,
  \<open>'4m'\<close> = 240 seconds).
\<close>

definition jwt_sign :: "payload \<Rightarrow> string \<Rightarrow> nat \<Rightarrow> nat \<Rightarrow> token" where
  "jwt_sign p secret expiresIn now = JWT p secret (now div 1000) (now div 1000 + expiresIn)"

text \<open>
  \<open>jwt.verify(token, secret, callback)\<close>: the callback gets an error (here \<open>None\<close>) when
  the string is no token, the signature is not the secret's, or the clock has reached
  \<open>exp\<close>; otherwise the decoded payload.
\<close>

fun jwt_verify :: "token \<Rightarrow> string \<Rightarrow> nat \<Rightarrow> payload option" where
  "jwt_verify (Raw s) secret now = None"
| "jwt_verify (JWT p s i e) secret now =
     (if s = secret \<and> now div 1000 < e then Some p else None)"

text \<open>\<open>jwt.decode(token, {complete: true}).payload.exp\<close> of a token just signed.\<close>

fun jwt_decode_exp :: "token \<Rightarrow> nat option" where
  "jwt_decode_exp (Raw s) = None"
| "jwt_decode_exp (JWT p s i e) = Some e"

definition bcrypt_hash :: "string \<Rightarrow> nat \<Rightarrow> string \<Rightarrow> pwhash" where
  "bcrypt_hash password cost slt = Bcrypt cost slt password"

definition bcrypt_compare :: "string \<Rightarrow> pwhash \<Rightarrow> bool" where
  "bcrypt_compare password h = (bc_plain h = password)"

text \<open>\<open>findUnique({where: {email}})\<close> and \<open>findUnique({where: {id}})\<close>.\<close>

definition findUnique_email :: "principal list \<Rightarrow> string \<Rightarrow> principal option" where
  "findUnique_email tbl e = find (\<lambda>u. u_email u = e) tbl"

definition findUnique_id :: "principal list \<Rightarrow> nat \<Rightarrow> principal option" where
  "findUnique_id tbl i = find (\<lambda>u. u_id u = i) tbl"

text \<open>
  \<open>update({where: {email}, data})\<close>: throws (P2025) when no row has the email; the
  scalar part of \<open>data\<close> is the function \<open>f\<close>.
\<close>

definition prisma_update :: "principal list \<Rightarrow> string \<Rightarrow> (principal \<Rightarrow> principal) \<Rightarrow> error + principal list" where
  "prisma_update tbl e f =
     (case findUnique_email tbl e of
        None \<Rightarrow> Inl (PrismaError ''P2025'')
      | Some _ \<Rightarrow> Inr (map (\<lambda>u. if u_email u = e then f u else u) tbl))"

text \<open>\<open>verification_tokens.findFirst({where: {AND: [{token}, {code}]}})\<close>.\<close>

definition findFirst_verification :: "db \<Rightarrow> string \<Rightarrow> int \<Rightarrow> verification_token option" where
  "findFirst_verification d tok c =
     find (\<lambda>v. vt_token v = tok \<and> vt_code v = c) (verification_tokens d)"

text \<open>
  The lookup that login, refresh and logout-all repeat: one \<open>findUnique\<close> by email in
  the table of the role; \<open>undefined\<close> for any other role.
\<close>

definition find_user_by_email :: "db \<Rightarrow> string \<Rightarrow> string \<Rightarrow> principal option" where
  "find_user_by_email d role e =
     (if role = ''admin'' then findUnique_email (admins d) e
      else if role = ''teacher'' then findUnique_email (teachers d) e
      else if role = ''student'' then findUnique_email (students d) e
      else None)"

section \<open>authController: verifyEmail\<close>

text \<open>
  One of the three \<open>if (user.role === ...)\<close> blocks of \<open>verifyEmail\<close>: the update of
  \<open>email_verified_at\<close> in the table of that role, by the requester's email.
\<close>

definition mark_verified :: "string \<Rightarrow> req_user \<Rightarrow> nat \<Rightarrow> principal list \<Rightarrow> error + principal list" where
  "mark_verified role user now tbl =
     (if ru_role user = role
      then prisma_update tbl (ru_email user) (\<lambda>u. u\<lparr>u_email_verified_at := Some now\<rparr>)
      else Inr tbl)"

definition verifyEmail :: "db \<Rightarrow> sys \<Rightarrow> req_user \<Rightarrow> string \<Rightarrow> int \<Rightarrow> outcome" where
  "verifyEmail d s user tok c =
     (case findFirst_verification d tok c of
        None \<Rightarrow> reply d d res0 (res_json (Message ''Invalid Code'') res0)
      | Some checkVerifyCode \<Rightarrow>
          (case bindE (mark_verified ''admin'' user (now_ms s) (admins d)) (\<lambda>a.
                bindE (mark_verified ''teacher'' user (now_ms s) (teachers d)) (\<lambda>t.
                bindE (mark_verified ''student'' user (now_ms s) (students d)) (\<lambda>st.
                Inr (d\<lparr>admins := a, teachers := t, students := st\<rparr>)))) of
             Inl e \<Rightarrow> \<lparr>o_db = d, o_res = res0, o_err = Some e\<rparr>
           | Inr d' \<Rightarrow> reply d' d res0 (res_json (Message ''Verification successful'') res0)))"

section \<open>authController: verifyResetCode\<close>

text \<open>JavaScript truthiness of a nullable integer column: \<open>null\<close> and \<open>0\<close> are falsy.\<close>

definition truthy :: "nat option \<Rightarrow> bool" where
  "truthy x = (case x of None \<Rightarrow> False | Some n \<Rightarrow> n \<noteq> 0)"

text \<open>
  \<open>userId\<close> and \<open>role\<close> start undefined; each of the three \<open>if\<close>s, in the source's
  order, overwrites both.
\<close>

definition reset_identity :: "verification_token \<Rightarrow> nat option \<times> string option" where
  "reset_identity c =
     (let i1 = (if truthy (vt_admin_id c) then (vt_admin_id c, Some ''admin'') else (None, None));
          i2 = (if truthy (vt_teacher_id c) then (vt_teacher_id c, Some ''teacher'') else i1);
          i3 = (if truthy (vt_student_id c) then (vt_student_id c, Some ''student'') else i2)
      in i3)"

definition verifyResetCode :: "env \<Rightarrow> db \<Rightarrow> sys \<Rightarrow> string \<Rightarrow> int \<Rightarrow> outcome" where
  "verifyResetCode ev d s tok c =
     (case findFirst_verification d tok c of
        None \<Rightarrow> reply d d res0 (res_json (Message ''Invalid Code'') res0)
      | Some checkVerifyCode \<Rightarrow>
          (let (userId, role) = reset_identity checkVerifyCode;
               passwordResetToken =
                 jwt_sign (Payload None userId role) (RESET_TOKEN_SECRET ev) 240 (now_ms s)
           in reply d d res0
                (res_json (MessageToken ''Verification successful'' passwordResetToken) res0)))"

section \<open>mailHandlers\<close>

text \<open>The nested \<open>verification_tokens: {create: ...}\<close> of an update: one new row.\<close>

definition vt_create :: "db \<Rightarrow> nat option \<Rightarrow> nat option \<Rightarrow> nat option \<Rightarrow> int \<Rightarrow> string \<Rightarrow> verify_type \<Rightarrow> nat \<Rightarrow> db" where
  "vt_create d a t st c tok ty ex =
     d\<lparr>verification_tokens := verification_tokens d @
          [\<lparr>vt_id = seq_verification_tokens d, vt_admin_id = a, vt_teacher_id = t,
            vt_student_id = st, vt_code = c, vt_token = tok, vt_verify_type = ty,
            vt_expires_at = ex\<rparr>],
       seq_verification_tokens := Suc (seq_verification_tokens d)\<rparr>"

text \<open>
  \<open>sendEmailVerifyCode(email, role, code, tx)\<close>: for the role's table, an update by
  email (which throws when no row has the email) that creates a code row of type
  \<open>EMAIL\<close> expiring one day from now; then the mail, whose failure throws.
\<close>

definition sendEmailVerifyCode :: "db \<Rightarrow> sys \<Rightarrow> string \<Rightarrow> string \<Rightarrow> int \<Rightarrow> error + db" where
  "sendEmailVerifyCode d s email role c =
     bindE (if role = ''admin''
            then (case findUnique_email (admins d) email of
                    None \<Rightarrow> Inl (PrismaError ''P2025'')
                  | Some u \<Rightarrow> Inr (vt_create d (Some (u_id u)) None None c (uuid s) EMAIL
                                    (now_ms s + 86400000)))
            else Inr d) (\<lambda>d1.
     bindE (if role = ''teacher''
            then (case findUnique_email (teachers d1) email of
                    None \<Rightarrow> Inl (PrismaError ''P2025'')
                  | Some u \<Rightarrow> Inr (vt_create d1 None (Some (u_id u)) None c (uuid s) EMAIL
                                    (now_ms s + 86400000)))
            else Inr d1) (\<lambda>d2.
     bindE (if role = ''student''
            then (case findUnique_email (students d2) email of
                    None \<Rightarrow> Inl (PrismaError ''P2025'')
                  | Some u \<Rightarrow> Inr (vt_create d2 None None (Some (u_id u)) c (uuid s) EMAIL
                                    (now_ms s + 86400000)))
            else Inr d2) (\<lambda>d3.
     if mail_ok s then Inr d3 else Inl MailError)))"

text \<open>
  The Prisma client has one delegate per model of the schema. The schema declares
  \<open>super_admins\<close>, \<open>admins\<close>, \<open>teachers\<close>, \<open>students\<close> and no model \<open>users\<close>, so
  \<open>prisma.users\<close> is \<open>undefined\<close>.
\<close>

definition prisma_users :: "db \<Rightarrow> principal list option" where
  "prisma_users d = None"

text \<open>An argument that the caller may pass as a number or as a string.\<close>

datatype js_value = JsNumber int | JsString string

text \<open>
  \<open>sendPasswordResetCode(email, code)\<close>: an update of \<open>prisma.users\<close> by email creating
  a code row of type \<open>PASSWORD_RESET\<close>, then the mail. Reading \<open>.update\<close> of
  \<open>undefined\<close> throws a TypeError before anything is written. The \<open>code\<close> column is an
  \<open>Int\<close>: a string there is refused by the client.
\<close>

definition sendPasswordResetCode :: "db \<Rightarrow> sys \<Rightarrow> string \<Rightarrow> js_value \<Rightarrow> error + db" where
  "sendPasswordResetCode d s email c =
     (case prisma_users d of
        None \<Rightarrow> Inl (TypeError ''Cannot read properties of undefined (reading update)'')
      | Some users \<Rightarrow>
          (case findUnique_email users email of
             None \<Rightarrow> Inl (PrismaError ''P2025'')
           | Some u \<Rightarrow>
               (case c of
                  JsString _ \<Rightarrow> Inl (PrismaError ''validation'')
                | JsNumber n \<Rightarrow>
                    (let d1 = vt_create d None None None n (uuid s) PASSWORD_RESET
                                (now_ms s + 86400000)
                     in if mail_ok s then Inr d1 else Inl MailError))))"

section \<open>authController: resendEmail, resetPassword\<close>

text \<open>
  The first update of \<open>resendEmail\<close>: \<open>admins.update\<close> by the requester's email (throws
  when there is none) with the nested \<open>deleteMany: {admin_id: user.id}\<close>, which deletes
  the code rows of the admin found that have the requester's id in \<open>admin_id\<close>.
\<close>

definition delete_admin_codes :: "db \<Rightarrow> req_user \<Rightarrow> error + db" where
  "delete_admin_codes d user =
     (case findUnique_email (admins d) (ru_email user) of
        None \<Rightarrow> Inl (PrismaError ''P2025'')
      | Some a \<Rightarrow>
          Inr (d\<lparr>verification_tokens :=
                 filter (\<lambda>v. \<not> (vt_admin_id v = Some (u_id a) \<and> vt_admin_id v = Some (ru_id user)))
                   (verification_tokens d)\<rparr>))"

text \<open>
  \<open>resendEmail\<close>: inside the transaction an already verified requester gets the reply
  and the callback returns; the \<open>res.json\<close> after the transaction runs in either case.
\<close>

definition resendEmail :: "db \<Rightarrow> sys \<Rightarrow> req_user \<Rightarrow> outcome" where
  "resendEmail d s user =
     (if ru_email_verified_at user \<noteq> None
      then (case res_json (Message ''Your email is already verified'') res0 of
              Inl e \<Rightarrow> \<lparr>o_db = d, o_res = res0, o_err = Some e\<rparr>
            | Inr r1 \<Rightarrow>
                reply d d r1
                  (res_json (Message ''A new verification code has been sent to your email'') r1))
      else (case bindE (delete_admin_codes d user) (\<lambda>d1.
                   sendEmailVerifyCode d1 s (ru_email user) ''admin'' (rand_code s)) of
              Inl e \<Rightarrow> \<lparr>o_db = d, o_res = res0, o_err = Some e\<rparr>
            | Inr d' \<Rightarrow>
                reply d' d' res0
                  (res_json (Message ''A new verification code has been sent to your email'') res0)))"

text \<open>
  \<open>resetPassword\<close> calls \<open>sendPasswordResetCode(email, role, resetCode)\<close>: the callee's
  second parameter, \<open>code\<close>, receives the role, and the third argument is dropped.
\<close>

definition resetPassword :: "db \<Rightarrow> sys \<Rightarrow> string \<Rightarrow> string \<Rightarrow> outcome" where
  "resetPassword d s email role =
     (case sendPasswordResetCode d s email (JsString role) of
        Inl e \<Rightarrow> \<lparr>o_db = d, o_res = res0, o_err = Some e\<rparr>
      | Inr d' \<Rightarrow>
          reply d' d' res0
            (res_json (Message ''A verification code has been sent to your email'') res0))"

section \<open>authController: sessions\<close>

text \<open>
  The request as the session handlers read it: the \<open>express_jwt\<close> cookie, the device
  brand and model of \<open>req.device.device\<close>, and the \<open>Authorization\<close> header, which either
  starts with \<open>Bearer\<close> and a space, followed by a token, or is some other string.
\<close>

datatype auth_header = Bearer token | OtherHeader string

record req =
  cookie :: "token option"
  brand :: "string option"
  model :: "string option"
  authorization :: "auth_header option"

text \<open>\<open>cookies?.express_jwt\<close> as a condition: a missing cookie and the empty string are falsy.\<close>

definition cookie_present :: "token option \<Rightarrow> bool" where
  "cookie_present c = (case c of None \<Rightarrow> False | Some t \<Rightarrow> t \<noteq> Raw [])"

definition deviceWithModel :: "string option \<Rightarrow> string option \<Rightarrow> string" where
  "deviceWithModel b m =
     (let deviceBrand = (case b of None \<Rightarrow> [] | Some x \<Rightarrow> x);
          deviceModel = (case m of None \<Rightarrow> [] | Some x \<Rightarrow> x)
      in if deviceBrand \<noteq> [] \<and> deviceModel \<noteq> [] then deviceBrand @ '' '' @ deviceModel
         else ''unknown'')"

text \<open>
  The column \<open>expires_at\<close> of \<open>personal_tokens\<close> is declared \<open>Int\<close>, a signed 32-bit
  integer: a write of a larger value is refused by the Prisma client (P2020, value out
  of range) and nothing is written.
\<close>

definition int4_max :: nat where
  "int4_max = 2147483647"

text \<open>\<open>personal_tokens.create\<close>: one new session row, if the expiry fits the column.\<close>

definition pt_create :: "db \<Rightarrow> nat option \<Rightarrow> nat option \<Rightarrow> nat option \<Rightarrow> token \<Rightarrow> nat \<Rightarrow> string \<Rightarrow> error + db" where
  "pt_create d a t st tok ex dev =
     (if int4_max < ex then Inl (PrismaError ''P2020'')
      else Inr (d\<lparr>personal_tokens := personal_tokens d @
                 [\<lparr>pt_id = seq_personal_tokens d, pt_admin_id = a, pt_teacher_id = t,
                   pt_student_id = st, pt_user_device = Some dev, pt_refresh_token = tok,
                   pt_expires_at = ex\<rparr>],
               seq_personal_tokens := Suc (seq_personal_tokens d)\<rparr>))"

text \<open>
  The three \<open>personal_tokens.deleteMany\<close> blocks that refresh, logout-all and
  update-password repeat: the rows whose column for the role holds the id go.
\<close>

definition deleteMany_personal_tokens :: "db \<Rightarrow> string option \<Rightarrow> nat \<Rightarrow> db" where
  "deleteMany_personal_tokens d role i =
     (if role = Some ''admin''
      then d\<lparr>personal_tokens := filter (\<lambda>r. pt_admin_id r \<noteq> Some i) (personal_tokens d)\<rparr>
      else if role = Some ''teacher''
      then d\<lparr>personal_tokens := filter (\<lambda>r. pt_teacher_id r \<noteq> Some i) (personal_tokens d)\<rparr>
      else if role = Some ''student''
      then d\<lparr>personal_tokens := filter (\<lambda>r. pt_student_id r \<noteq> Some i) (personal_tokens d)\<rparr>
      else d)"

text \<open>
  The body of the login transaction. \<open>user\<close> is \<open>null\<close> or \<open>undefined\<close> when no row has
  the email or the role is none of the three; \<open>user.password\<close> then throws a TypeError.
\<close>

definition login_tx :: "env \<Rightarrow> db \<Rightarrow> sys \<Rightarrow> req \<Rightarrow> res \<Rightarrow> string \<Rightarrow> string \<Rightarrow> string \<Rightarrow> error + db \<times> res" where
  "login_tx ev d s rq r email password role =
     (case find_user_by_email d role email of
        None \<Rightarrow> Inl (TypeError ''Cannot read properties of null (reading password)'')
      | Some user \<Rightarrow>
          (let isPasswordValid = bcrypt_compare password (u_password user) in
           if email = u_email user \<and> isPasswordValid then
             (if u_is_suspended user then Inl (HttpError 403 ''Your account is suspended'')
              else
                (let accessToken = jwt_sign (Payload (Some (u_email user)) None (Some role))
                                     (ACCESS_TOKEN_SECRET ev) 86400 (now_ms s);
                     refreshToken = jwt_sign (Payload (Some (u_email user)) None (Some role))
                                     (REFRESH_TOKEN_SECRET ev) 604800 (now_ms s)
                 in case jwt_decode_exp refreshToken of
                      None \<Rightarrow> Inl (TypeError ''Cannot read properties of null (reading payload)'')
                    | Some jwtExpireTime \<Rightarrow>
                        (let dev = deviceWithModel (brand rq) (model rq)
                         in bindE (if role = ''admin''
                                   then pt_create d (Some (u_id user)) None None refreshToken jwtExpireTime dev
                                   else Inr d) (\<lambda>d1.
                            bindE (if role = ''teacher''
                                   then pt_create d1 None (Some (u_id user)) None refreshToken jwtExpireTime dev
                                   else Inr d1) (\<lambda>d2.
                            bindE (if role = ''student''
                                   then pt_create d2 None None (Some (u_id user)) refreshToken jwtExpireTime dev
                                   else Inr d2) (\<lambda>d3.
                            bindE (res_cookie ''express_jwt'' refreshToken r) (\<lambda>r2.
                            bindE (res_json (AccessToken accessToken) r2) (\<lambda>r3.
                            Inr (d3, r3)))))))))
           else Inl (HttpError 401 ''Invalid email or password'')))"

text \<open>
  \<open>login\<close>: an old cookie is cleared first; a throw inside the transaction rolls the
  store back and goes to \<open>next\<close>.
\<close>

definition login :: "env \<Rightarrow> db \<Rightarrow> sys \<Rightarrow> req \<Rightarrow> string \<Rightarrow> string \<Rightarrow> string \<Rightarrow> outcome" where
  "login ev d s rq email password role =
     (case (if cookie_present (cookie rq) then res_clearCookie ''express_jwt'' res0 else Inr res0) of
        Inl e \<Rightarrow> \<lparr>o_db = d, o_res = res0, o_err = Some e\<rparr>
      | Inr r1 \<Rightarrow>
          (case login_tx ev d s rq r1 email password role of
             Inl e \<Rightarrow> \<lparr>o_db = d, o_res = r1, o_err = Some e\<rparr>
           | Inr (d', r') \<Rightarrow> \<lparr>o_db = d', o_res = r', o_err = None\<rparr>))"

text \<open>
  The lookup of the principal a decoded refresh token names: by \<open>decoded.user.email\<close> in
  the table of \<open>decoded.user.role\<close>. A \<open>findUnique\<close> whose email is \<open>undefined\<close> is refused
  by the client; a role that is none of the three leaves the variable \<open>undefined\<close>.
\<close>

definition lookup_decoded :: "db \<Rightarrow> payload \<Rightarrow> error + principal option" where
  "lookup_decoded d decoded =
     (case p_role decoded of
        None \<Rightarrow> Inr None
      | Some role \<Rightarrow>
          (if role = ''admin'' \<or> role = ''teacher'' \<or> role = ''student''
           then (case p_email decoded of
                   None \<Rightarrow> Inl (PrismaError ''validation'')
                 | Some e \<Rightarrow> Inr (find_user_by_email d role e))
           else Inr None))"

text \<open>
  The callback of \<open>jwt.verify\<close> on the reuse path, once the token has verified: if the
  principal exists, all its session rows are deleted.
\<close>

definition reuse_callback :: "db \<Rightarrow> payload \<Rightarrow> error + db" where
  "reuse_callback d decoded =
     bindE (lookup_decoded d decoded) (\<lambda>possibleCompromisedUser.
       case possibleCompromisedUser of
         None \<Rightarrow> Inr d
       | Some u \<Rightarrow> Inr (deleteMany_personal_tokens d (p_role decoded) (u_id u)))"

text \<open>
  The reuse path: no session row holds the presented token. On a verification error the
  callback replies 403, and the \<open>return res.status(403).json(...)\<close> that follows the
  call throws, the response being out already. On success the callback runs its
  deletions and the statement after the call replies 403.
\<close>

definition refresh_reuse :: "env \<Rightarrow> db \<Rightarrow> sys \<Rightarrow> res \<Rightarrow> token \<Rightarrow> outcome" where
  "refresh_reuse ev d s r1 refreshToken =
     (case jwt_verify refreshToken (REFRESH_TOKEN_SECRET ev) (now_ms s) of
        None \<Rightarrow>
          (case res_json (Message ''Forbidden'') (res_status 403 r1) of
             Inl e \<Rightarrow> \<lparr>o_db = d, o_res = r1, o_err = Some e\<rparr>
           | Inr r2 \<Rightarrow> reply d d r2 (res_json (Message ''Forbidden'') (res_status 403 r2)))
      | Some decoded \<Rightarrow>
          (case reuse_callback d decoded of
             Inl e \<Rightarrow>
               (reply d d r1 (res_json (Message ''Forbidden'') (res_status 403 r1)))\<lparr>o_err := Some e\<rparr>
           | Inr d' \<Rightarrow> reply d' d' r1 (res_json (Message ''Forbidden'') (res_status 403 r1))))"

text \<open>
  The rotation path: some session row holds the presented token. \<open>updateMany\<close> rewrites
  every row holding it; there is no transaction, so the write stands. An expiry that
  does not fit the \<open>Int\<close> column makes \<open>updateMany\<close> throw inside the callback: nothing
  is written and no reply is sent.
\<close>

definition refresh_rotate :: "env \<Rightarrow> db \<Rightarrow> sys \<Rightarrow> res \<Rightarrow> token \<Rightarrow> outcome" where
  "refresh_rotate ev d s r1 refreshToken =
     (case jwt_verify refreshToken (REFRESH_TOKEN_SECRET ev) (now_ms s) of
        None \<Rightarrow> reply d d r1 (res_json (Message ''Forbidden'') (res_status 403 r1))
      | Some decoded \<Rightarrow>
          (case lookup_decoded d decoded of
             Inl e \<Rightarrow> \<lparr>o_db = d, o_res = r1, o_err = Some e\<rparr>
           | Inr None \<Rightarrow> reply d d r1 (res_json (Message ''Unauthorized'') (res_status 401 r1))
           | Inr (Some user) \<Rightarrow>
               (let newAccessToken = jwt_sign (Payload (Some (u_email user)) None (p_role decoded))
                                       (ACCESS_TOKEN_SECRET ev) 120 (now_ms s);
                    newRefreshToken = jwt_sign (Payload (Some (u_email user)) None (p_role decoded))
                                       (REFRESH_TOKEN_SECRET ev) 604800 (now_ms s)
                in case jwt_decode_exp newRefreshToken of
                     None \<Rightarrow> \<lparr>o_db = d, o_res = r1,
                               o_err = Some (TypeError ''Cannot read properties of null (reading payload)'')\<rparr>
                   | Some jwtExpireTime \<Rightarrow>
                       (if int4_max < jwtExpireTime
                        then \<lparr>o_db = d, o_res = r1, o_err = Some (PrismaError ''P2020'')\<rparr>
                        else
                          (let d' = d\<lparr>personal_tokens :=
                                       map (\<lambda>r. if pt_refresh_token r = refreshToken
                                                 then r\<lparr>pt_refresh_token := newRefreshToken,
                                                        pt_expires_at := jwtExpireTime\<rparr>
                                                 else r)
                                         (personal_tokens d)\<rparr>
                           in case res_cookie ''express_jwt'' newRefreshToken r1 of
                                Inl e \<Rightarrow> \<lparr>o_db = d', o_res = r1, o_err = Some e\<rparr>
                              | Inr r2 \<Rightarrow> reply d' d' r2 (res_json (AccessToken newAccessToken) r2))))))"

definition refreshAuthToken :: "env \<Rightarrow> db \<Rightarrow> sys \<Rightarrow> req \<Rightarrow> outcome" where
  "refreshAuthToken ev d s rq =
     (case cookie rq of
        None \<Rightarrow> reply d d res0 (res_json (Message ''Unauthorized'') (res_status 401 res0))
      | Some refreshToken \<Rightarrow>
          (if refreshToken = Raw []
           then reply d d res0 (res_json (Message ''Unauthorized'') (res_status 401 res0))
           else
             (let tokens = filter (\<lambda>r. pt_refresh_token r = refreshToken) (personal_tokens d)
              in case res_clearCookie ''express_jwt'' res0 of
                   Inl e \<Rightarrow> \<lparr>o_db = d, o_res = res0, o_err = Some e\<rparr>
                 | Inr r1 \<Rightarrow>
                     (if tokens = [] then refresh_reuse ev d s r1 refreshToken
                      else refresh_rotate ev d s r1 refreshToken))))"

text \<open>
  \<open>logout\<close>: inside a transaction, the rows holding the cookie's token are deleted, the
  cookie is cleared and the reply is sent.
\<close>

definition logout :: "db \<Rightarrow> req \<Rightarrow> outcome" where
  "logout d rq =
     (case cookie rq of
        None \<Rightarrow> reply d d res0 (res_json (Message ''Unauthorized'') (res_status 401 res0))
      | Some refreshToken \<Rightarrow>
          (if refreshToken = Raw []
           then reply d d res0 (res_json (Message ''Unauthorized'') (res_status 401 res0))
           else
             (let d' = d\<lparr>personal_tokens :=
                          filter (\<lambda>r. pt_refresh_token r \<noteq> refreshToken) (personal_tokens d)\<rparr>
              in case res_clearCookie ''express_jwt'' res0 of
                   Inl e \<Rightarrow> \<lparr>o_db = d, o_res = res0, o_err = Some e\<rparr>
                 | Inr r1 \<Rightarrow> reply d' d r1 (res_json (Message ''You are now logged out'') r1))))"

text \<open>
  \<open>logoutAll\<close>: the requester is looked up by \<open>req.user.email\<close> in the table of
  \<open>req.user.role\<close>, and \<open>user.id\<close> (a TypeError when there is no such row) selects the
  rows that go.
\<close>

definition logoutAll :: "db \<Rightarrow> req \<Rightarrow> req_user \<Rightarrow> outcome" where
  "logoutAll d rq ru =
     (if \<not> cookie_present (cookie rq)
      then reply d d res0 (res_json (Message ''Unauthorized'') (res_status 401 res0))
      else
        (case (if ru_role ru = ''admin'' \<or> ru_role ru = ''teacher'' \<or> ru_role ru = ''student''
               then (case find_user_by_email d (ru_role ru) (ru_email ru) of
                       None \<Rightarrow> Inl (TypeError ''Cannot read properties of null (reading id)'')
                     | Some user \<Rightarrow>
                         Inr (deleteMany_personal_tokens d (Some (ru_role ru)) (u_id user)))
               else Inr d) of
           Inl e \<Rightarrow> \<lparr>o_db = d, o_res = res0, o_err = Some e\<rparr>
         | Inr d' \<Rightarrow>
             (case res_clearCookie ''express_jwt'' res0 of
                Inl e \<Rightarrow> \<lparr>o_db = d, o_res = res0, o_err = Some e\<rparr>
              | Inr r1 \<Rightarrow> reply d' d r1 (res_json (Message ''All devices are logged out'') r1))))"

section \<open>authController: updatePassword\<close>

text \<open>
  The lookup of the principal a decoded reset token names: by \<open>decoded.user.id\<close> in the
  table of \<open>decoded.user.role\<close>.
\<close>

definition lookup_by_id :: "db \<Rightarrow> payload \<Rightarrow> error + principal option" where
  "lookup_by_id d decoded =
     (case p_role decoded of
        None \<Rightarrow> Inr None
      | Some role \<Rightarrow>
          (if role = ''admin'' \<or> role = ''teacher'' \<or> role = ''student''
           then (case p_id decoded of
                   None \<Rightarrow> Inl (PrismaError ''validation'')
                 | Some i \<Rightarrow>
                     Inr (if role = ''admin'' then findUnique_id (admins d) i
                          else if role = ''teacher'' then findUnique_id (teachers d) i
                          else findUnique_id (students d) i))
           else Inr None))"

text \<open>
  The update that stores the new hash: by the user's email in the table of the role,
  with the nested \<open>deleteMany\<close> of the code rows of the row found that carry the user's
  id in the column of the role.
\<close>

definition set_password :: "db \<Rightarrow> string option \<Rightarrow> principal \<Rightarrow> pwhash \<Rightarrow> error + db" where
  "set_password d role user h =
     (if role = Some ''admin'' then
        (case findUnique_email (admins d) (u_email user) of
           None \<Rightarrow> Inl (PrismaError ''P2025'')
         | Some a \<Rightarrow>
             Inr (d\<lparr>admins := map (\<lambda>u. if u_email u = u_email user then u\<lparr>u_password := h\<rparr> else u)
                                (admins d),
                    verification_tokens :=
                      filter (\<lambda>v. \<not> (vt_admin_id v = Some (u_id a) \<and> vt_admin_id v = Some (u_id user)))
                        (verification_tokens d)\<rparr>))
      else if role = Some ''teacher'' then
        (case findUnique_email (teachers d) (u_email user) of
           None \<Rightarrow> Inl (PrismaError ''P2025'')
         | Some a \<Rightarrow>
             Inr (d\<lparr>teachers := map (\<lambda>u. if u_email u = u_email user then u\<lparr>u_password := h\<rparr> else u)
                                  (teachers d),
                    verification_tokens :=
                      filter (\<lambda>v. \<not> (vt_teacher_id v = Some (u_id a) \<and> vt_teacher_id v = Some (u_id user)))
                        (verification_tokens d)\<rparr>))
      else if role = Some ''student'' then
        (case findUnique_email (students d) (u_email user) of
           None \<Rightarrow> Inl (PrismaError ''P2025'')
         | Some a \<Rightarrow>
             Inr (d\<lparr>students := map (\<lambda>u. if u_email u = u_email user then u\<lparr>u_password := h\<rparr> else u)
                                  (students d),
                    verification_tokens :=
                      filter (\<lambda>v. \<not> (vt_student_id v = Some (u_id a) \<and> vt_student_id v = Some (u_id user)))
                        (verification_tokens d)\<rparr>))
      else Inr d)"

definition updatePassword_tx :: "db \<Rightarrow> sys \<Rightarrow> payload \<Rightarrow> string \<Rightarrow> error + db \<times> res" where
  "updatePassword_tx d s decoded password =
     bindE (lookup_by_id d decoded) (\<lambda>user.
       case user of
         None \<Rightarrow> bindE (res_json (Message ''User not found'') (res_status 404 res0)) (\<lambda>r. Inr (d, r))
       | Some u \<Rightarrow>
           (let d1 = deleteMany_personal_tokens d (p_role decoded) (u_id u);
                hashed = bcrypt_hash password 12 (salt s)
            in bindE (set_password d1 (p_role decoded) u hashed) (\<lambda>d2. Inr (d2, res0))))"

text \<open>
  \<open>updatePassword\<close>: the header must start with \<open>Bearer\<close> and a space, and the token
  after it must verify against the reset secret. The reply after the transaction runs
  also when the transaction has answered 404.
\<close>

definition updatePassword :: "env \<Rightarrow> db \<Rightarrow> sys \<Rightarrow> req \<Rightarrow> string \<Rightarrow> outcome" where
  "updatePassword ev d s rq password =
     (case authorization rq of
        None \<Rightarrow> reply d d res0 (res_json (Message ''Forbidden'') (res_status 403 res0))
      | Some (OtherHeader h) \<Rightarrow> reply d d res0 (res_json (Message ''Forbidden'') (res_status 403 res0))
      | Some (Bearer tk) \<Rightarrow>
          (case jwt_verify tk (RESET_TOKEN_SECRET ev) (now_ms s) of
             None \<Rightarrow> reply d d res0 (res_json (Message ''Forbidden'') (res_status 403 res0))
           | Some decoded \<Rightarrow>
               (case updatePassword_tx d s decoded password of
                  Inl e \<Rightarrow> \<lparr>o_db = d, o_res = res0, o_err = Some e\<rparr>
                | Inr (d', r') \<Rightarrow>
                    reply d' d' r' (res_json (Message ''Password has been updated'') r'))))"

section \<open>authController: register\<close>

text \<open>\<open>admins.create({data})\<close>: the email column is unique (P2002 on a duplicate).\<close>

definition admins_create :: "db \<Rightarrow> string \<Rightarrow> string \<Rightarrow> pwhash \<Rightarrow> string \<Rightarrow> error + db \<times> principal" where
  "admins_create d name email h school =
     (case findUnique_email (admins d) email of
        Some _ \<Rightarrow> Inl (PrismaError ''P2002'')
      | None \<Rightarrow>
          (let admin = \<lparr>u_id = seq_admins d, u_name = name, u_email = email, u_password = h,
                        u_email_verified_at = None, u_is_suspended = False,
                        u_school = Some school\<rparr>
           in Inr (d\<lparr>admins := admins d @ [admin], seq_admins := Suc (seq_admins d)\<rparr>, admin)))"

text \<open>
  The body of the register transaction. \<open>assignRole\<close> (\<open>utils/assignRole\<close>) is not part
  of the sources at hand and is a parameter: any function that returns a store or throws.
\<close>

definition register_tx :: "env \<Rightarrow> (nat \<Rightarrow> string \<Rightarrow> db \<Rightarrow> error + db) \<Rightarrow> db \<Rightarrow> sys \<Rightarrow> req \<Rightarrow> string \<Rightarrow> string \<Rightarrow> pwhash \<Rightarrow> string \<Rightarrow> error + db \<times> res" where
  "register_tx ev assignRole d s rq name email h school =
     bindE (admins_create d name email h school) (\<lambda>(d1, admin).
     bindE (assignRole (u_id admin) ''admin'' d1) (\<lambda>d2.
     bindE (sendEmailVerifyCode d2 s email ''admin'' (rand_code s)) (\<lambda>d3.
       (let accessToken = jwt_sign (Payload (Some (u_email admin)) None (Some ''admin''))
                            (ACCESS_TOKEN_SECRET ev) 86400 (now_ms s);
            refreshToken = jwt_sign (Payload (Some (u_email admin)) None (Some ''admin''))
                            (REFRESH_TOKEN_SECRET ev) 604800 (now_ms s)
        in case jwt_decode_exp refreshToken of
             None \<Rightarrow> Inl (TypeError ''Cannot read properties of null (reading payload)'')
           | Some jwtExpireTime \<Rightarrow>
               bindE (pt_create d3 (Some (u_id admin)) None None refreshToken jwtExpireTime
                        (deviceWithModel (brand rq) (model rq))) (\<lambda>d4.
               bindE (res_cookie ''express_jwt'' refreshToken res0) (\<lambda>r1.
               bindE (res_json (MessageAccessToken ''Account created'' accessToken)
                        (res_status 201 r1)) (\<lambda>r2.
               Inr (d4, r2))))))))"

definition register :: "env \<Rightarrow> (nat \<Rightarrow> string \<Rightarrow> db \<Rightarrow> error + db) \<Rightarrow> db \<Rightarrow> sys \<Rightarrow> req \<Rightarrow> string \<Rightarrow> string \<Rightarrow> string \<Rightarrow> string \<Rightarrow> outcome" where
  "register ev assignRole d s rq name email password school =
     (let hashed = bcrypt_hash password 12 (salt s)
      in case register_tx ev assignRole d s rq name email hashed school of
           Inl e \<Rightarrow> \<lparr>o_db = d, o_res = res0, o_err = Some e\<rparr>
         | Inr (d', r') \<Rightarrow> \<lparr>o_db = d', o_res = r', o_err = None\<rparr>)"

section \<open>A small store for concrete runs\<close>

text \<open>
  Two admins, Alice (id 1) and Bob (id 2), each with one session; an expired \<open>EMAIL\<close>
  code issued to Bob; a \<open>PASSWORD_RESET\<close> code and an \<open>EMAIL\<close> code issued to Alice.
  The clock of the runs stands at 5000 seconds.
\<close>

definition ex_env :: env where
  "ex_env = \<lparr>ACCESS_TOKEN_SECRET = ''a-secret'', REFRESH_TOKEN_SECRET = ''r-secret'',
             RESET_TOKEN_SECRET = ''p-secret''\<rparr>"

definition ex_sys :: sys where
  "ex_sys = \<lparr>now_ms = 5000000, rand_code = 44444444, uuid = ''t-new'', salt = ''s9'',
             mail_ok = True\<rparr>"

definition ex_alice :: principal where
  "ex_alice = \<lparr>u_id = 1, u_name = ''Alice'', u_email = ''alice@x.com'',
               u_password = Bcrypt 12 ''s1'' ''pw-alice'', u_email_verified_at = None,
               u_is_suspended = False, u_school = Some ''X''\<rparr>"

definition ex_bob :: principal where
  "ex_bob = \<lparr>u_id = 2, u_name = ''Bob'', u_email = ''bob@x.com'',
             u_password = Bcrypt 12 ''s2'' ''pw-bob'', u_email_verified_at = None,
             u_is_suspended = False, u_school = Some ''Y''\<rparr>"

definition ex_alice_user :: req_user where
  "ex_alice_user = \<lparr>ru_id = 1, ru_email = ''alice@x.com'', ru_role = ''admin'',
                    ru_email_verified_at = None\<rparr>"

definition ex_alice_token :: token where
  "ex_alice_token = JWT (Payload (Some ''alice@x.com'') None (Some ''admin'')) ''r-secret'' 1000 605800"

definition ex_bob_token :: token where
  "ex_bob_token = JWT (Payload (Some ''bob@x.com'') None (Some ''admin'')) ''r-secret'' 2000 606800"

text \<open>A refresh token of Alice that an earlier rotation replaced: signed, not stored.\<close>

definition ex_alice_old_token :: token where
  "ex_alice_old_token = JWT (Payload (Some ''alice@x.com'') None (Some ''admin'')) ''r-secret'' 500 605300"

definition ex_alice_reset_token :: token where
  "ex_alice_reset_token = JWT (Payload None (Some 1) (Some ''admin'')) ''p-secret'' 4900 5140"

definition ex_db :: db where
  "ex_db =
     \<lparr>admins = [ex_alice, ex_bob], teachers = [], students = [],
      personal_tokens =
        [\<lparr>pt_id = 1, pt_admin_id = Some 1, pt_teacher_id = None, pt_student_id = None,
          pt_user_device = Some ''unknown'', pt_refresh_token = ex_alice_token,
          pt_expires_at = 605800\<rparr>,
         \<lparr>pt_id = 2, pt_admin_id = Some 2, pt_teacher_id = None, pt_student_id = None,
          pt_user_device = Some ''unknown'', pt_refresh_token = ex_bob_token,
          pt_expires_at = 606800\<rparr>],
      verification_tokens =
        [\<lparr>vt_id = 1, vt_admin_id = Some 2, vt_teacher_id = None, vt_student_id = None,
          vt_code = 11111111, vt_token = ''t-bob'', vt_verify_type = EMAIL,
          vt_expires_at = 1000\<rparr>,
         \<lparr>vt_id = 2, vt_admin_id = Some 1, vt_teacher_id = None, vt_student_id = None,
          vt_code = 22222222, vt_token = ''t-alice-reset'', vt_verify_type = PASSWORD_RESET,
          vt_expires_at = 9000000\<rparr>,
         \<lparr>vt_id = 3, vt_admin_id = Some 1, vt_teacher_id = None, vt_student_id = None,
          vt_code = 33333333, vt_token = ''t-alice'', vt_verify_type = EMAIL,
          vt_expires_at = 9000000\<rparr>],
      seq_admins = 3, seq_personal_tokens = 3, seq_verification_tokens = 4\<rparr>"




section \<open>Vocabulary of the properties\<close>

text \<open>
  A session row belongs to the principal \<open>(role, i)\<close> when its column for the role holds
  \<open>i\<close>; likewise a code row.
\<close>

definition session_of :: "string \<Rightarrow> nat \<Rightarrow> personal_token \<Rightarrow> bool" where
  "session_of role i r =
     ((role = ''admin'' \<and> pt_admin_id r = Some i)
      \<or> (role = ''teacher'' \<and> pt_teacher_id r = Some i)
      \<or> (role = ''student'' \<and> pt_student_id r = Some i))"

definition code_of :: "string \<Rightarrow> nat \<Rightarrow> verification_token \<Rightarrow> bool" where
  "code_of role i v =
     ((role = ''admin'' \<and> vt_admin_id v = Some i)
      \<or> (role = ''teacher'' \<and> vt_teacher_id v = Some i)
      \<or> (role = ''student'' \<and> vt_student_id v = Some i))"

text \<open>The table of a role, and the email column's uniqueness in it.\<close>

definition table_of :: "db \<Rightarrow> string \<Rightarrow> principal list" where
  "table_of d role =
     (if role = ''admin'' then admins d
      else if role = ''teacher'' then teachers d
      else if role = ''student'' then students d
      else [])"

definition unique_emails :: "principal list \<Rightarrow> bool" where
  "unique_emails tbl = distinct (map u_email tbl)"

text \<open>
  The principal a token names: the role and the email of a payload \<open>{email, role}\<close>.
  A session row names its owner when its token's role and email find a principal and
  the row belongs to that principal. A store's sessions are well formed when every row
  names its owner.
\<close>

fun token_names :: "token \<Rightarrow> (string \<times> string) option" where
  "token_names (JWT (Payload (Some e) None (Some role)) k i x) = Some (role, e)"
| "token_names t = None"

definition names_owner :: "db \<Rightarrow> personal_token \<Rightarrow> bool" where
  "names_owner d r =
     (case token_names (pt_refresh_token r) of
        None \<Rightarrow> False
      | Some (role, e) \<Rightarrow>
          (case find_user_by_email d role e of
             None \<Rightarrow> False
           | Some u \<Rightarrow> session_of role (u_id u) r))"

definition sessions_wf :: "db \<Rightarrow> bool" where
  "sessions_wf d = list_all (names_owner d) (personal_tokens d)"

text \<open>
  The stores the handlers build: from any store without sessions, by any run of any
  handler. \<open>assignRole\<close>, a parameter of \<open>register\<close>, is taken to write to neither the
  principals nor the sessions (it assigns a role to the new admin).
\<close>

definition keeps_sessions :: "(nat \<Rightarrow> string \<Rightarrow> db \<Rightarrow> error + db) \<Rightarrow> bool" where
  "keeps_sessions f =
     (\<forall>i r d d'. f i r d = Inr d' \<longrightarrow>
        admins d' = admins d \<and> teachers d' = teachers d \<and> students d' = students d
        \<and> personal_tokens d' = personal_tokens d \<and> seq_personal_tokens d' = seq_personal_tokens d)"

inductive reachable :: "env \<Rightarrow> (nat \<Rightarrow> string \<Rightarrow> db \<Rightarrow> error + db) \<Rightarrow> db \<Rightarrow> bool"
  for ev :: env and assignRole :: "nat \<Rightarrow> string \<Rightarrow> db \<Rightarrow> error + db" where
  start: "personal_tokens d = [] \<Longrightarrow> reachable ev assignRole d"
| by_register: "reachable ev assignRole d \<Longrightarrow>
     reachable ev assignRole (o_db (register ev assignRole d s rq name email password school))"
| by_resendEmail: "reachable ev assignRole d \<Longrightarrow>
     reachable ev assignRole (o_db (resendEmail d s ru))"
| by_verifyEmail: "reachable ev assignRole d \<Longrightarrow>
     reachable ev assignRole (o_db (verifyEmail d s ru tok c))"
| by_login: "reachable ev assignRole d \<Longrightarrow>
     reachable ev assignRole (o_db (login ev d s rq email password role))"
| by_refresh: "reachable ev assignRole d \<Longrightarrow>
     reachable ev assignRole (o_db (refreshAuthToken ev d s rq))"
| by_logout: "reachable ev assignRole d \<Longrightarrow>
     reachable ev assignRole (o_db (logout d rq))"
| by_logoutAll: "reachable ev assignRole d \<Longrightarrow>
     reachable ev assignRole (o_db (logoutAll d rq ru))"
| by_resetPassword: "reachable ev assignRole d \<Longrightarrow>
     reachable ev assignRole (o_db (resetPassword d s email role))"
| by_verifyResetCode: "reachable ev assignRole d \<Longrightarrow>
     reachable ev assignRole (o_db (verifyResetCode ev d s tok c))"
| by_updatePassword: "reachable ev assignRole d \<Longrightarrow>
     reachable ev assignRole (o_db (updatePassword ev d s rq password))"

text \<open>
  The tokens a handler hands out: the access token in the body of the reply, and the
  refresh tokens it sets as the \<open>express_jwt\<close> cookie.
\<close>

definition issued_access :: "outcome \<Rightarrow> token list" where
  "issued_access out =
     (case sent (o_res out) of
        Some (st, AccessToken a) \<Rightarrow> [a]
      | Some (st, MessageAccessToken m a) \<Rightarrow> [a]
      | _ \<Rightarrow> [])"

fun cookie_tokens :: "cookie_op list \<Rightarrow> token list" where
  "cookie_tokens [] = []"
| "cookie_tokens (SetCookie n t # ops) = t # cookie_tokens ops"
| "cookie_tokens (ClearCookie n # ops) = cookie_tokens ops"

definition issued_refresh :: "outcome \<Rightarrow> token list" where
  "issued_refresh out = cookie_tokens (cookie_ops (o_res out))"

text \<open>
  A token signed with the given secret whose lifetime (\<open>exp\<close> minus \<open>iat\<close>) is the given
  number of seconds and whose payload is \<open>{email, role}\<close>.
\<close>

fun signed_for :: "token \<Rightarrow> string \<Rightarrow> nat \<Rightarrow> string \<Rightarrow> string \<Rightarrow> bool" where
  "signed_for (Raw x) secret life e role = False"
| "signed_for (JWT p k i ex) secret life e role =
     (k = secret \<and> ex = i + life \<and> p = Payload (Some e) None (Some role))"

section \<open>Facts about the queries\<close>

lemma find_map_same:
  "(\<And>u. u_email (f u) = u_email u) \<Longrightarrow>
   findUnique_email (map (\<lambda>u. if u_email u = e then f u else u) tbl) e
     = map_option f (findUnique_email tbl e)"
  by (induction tbl) (auto simp: findUnique_email_def)

lemma find_map_other:
  "(\<And>u. u_email (f u) = u_email u) \<Longrightarrow> e' \<noteq> e \<Longrightarrow>
   findUnique_email (map (\<lambda>u. if u_email u = e then f u else u) tbl) e'
     = findUnique_email tbl e'"
  by (induction tbl) (auto simp: findUnique_email_def)

lemma prisma_update_found:
  "findUnique_email tbl e = Some u \<Longrightarrow>
   prisma_update tbl e f = Inr (map (\<lambda>u. if u_email u = e then f u else u) tbl)"
  by (simp add: prisma_update_def)

lemma res_json_res0:
  "res_json b res0 = Inr (res0\<lparr>sent := Some (200, b)\<rparr>)"
  by (simp add: res_json_def res0_def)

section \<open>verifyEmail\<close>

text \<open>
  What \<open>verifyEmail\<close> does once some code row matches and the requester is a row of the
  table of its role: the requester's row gets the timestamp, the reply is the success
  message, nothing else is written.
\<close>

lemma verifyEmail_found:
  assumes "findFirst_verification d tok c = Some v"
    and "find_user_by_email d (ru_role user) (ru_email user) = Some u"
  shows "verifyEmail d s user tok c =
     \<lparr>o_db = (if ru_role user = ''admin''
               then d\<lparr>admins := map (\<lambda>x. if u_email x = ru_email user
                                           then x\<lparr>u_email_verified_at := Some (now_ms s)\<rparr> else x)
                                  (admins d)\<rparr>
               else if ru_role user = ''teacher''
               then d\<lparr>teachers := map (\<lambda>x. if u_email x = ru_email user
                                             then x\<lparr>u_email_verified_at := Some (now_ms s)\<rparr> else x)
                                    (teachers d)\<rparr>
               else d\<lparr>students := map (\<lambda>x. if u_email x = ru_email user
                                             then x\<lparr>u_email_verified_at := Some (now_ms s)\<rparr> else x)
                                    (students d)\<rparr>),
       o_res = res0\<lparr>sent := Some (200, Message ''Verification successful'')\<rparr>,
       o_err = None\<rparr>"
  using assms
  by (auto simp: verifyEmail_def find_user_by_email_def mark_verified_def bindE_def reply_def
      prisma_update_found res_json_res0 split: if_splits)

text \<open>
  Claim C10. The lookup of \<open>verifyEmail\<close> is by token and code alone; the row found is
  never compared with the requester. So whatever row \<open>v\<close> matches, whoever it was issued
  to, a requester who is a row of the table of its role gets the success reply and the
  timestamp on its own row; every other principal, the one the code was issued to
  included, stays as it was, and so does the table of codes.
\<close>

theorem verifyEmail_marks_requester:
  assumes m: "findFirst_verification d tok c = Some v"
    and u: "find_user_by_email d (ru_role user) (ru_email user) = Some u"
  shows "sent (o_res (verifyEmail d s user tok c)) = Some (200, Message ''Verification successful'')
     \<and> find_user_by_email (o_db (verifyEmail d s user tok c)) (ru_role user) (ru_email user)
         = Some (u\<lparr>u_email_verified_at := Some (now_ms s)\<rparr>)
     \<and> (\<forall>role e. (role, e) \<noteq> (ru_role user, ru_email user) \<longrightarrow>
           find_user_by_email (o_db (verifyEmail d s user tok c)) role e = find_user_by_email d role e)
     \<and> verification_tokens (o_db (verifyEmail d s user tok c)) = verification_tokens d"
proof -
  note eq = verifyEmail_found [OF m u, of s]
  have r: "ru_role user = ''admin'' \<or> ru_role user = ''teacher'' \<or> ru_role user = ''student''"
    using u by (auto simp: find_user_by_email_def split: if_splits)
  have a: "sent (o_res (verifyEmail d s user tok c)) = Some (200, Message ''Verification successful'')"
    by (simp add: eq res0_def)
  have b: "find_user_by_email (o_db (verifyEmail d s user tok c)) (ru_role user) (ru_email user)
         = Some (u\<lparr>u_email_verified_at := Some (now_ms s)\<rparr>)"
    using u r by (auto simp: eq find_user_by_email_def find_map_same)
  have c: "find_user_by_email (o_db (verifyEmail d s user tok c)) role e = find_user_by_email d role e"
    if "(role, e) \<noteq> (ru_role user, ru_email user)" for role e
    using that r by (auto simp: eq find_user_by_email_def find_map_other)
  have dd: "verification_tokens (o_db (verifyEmail d s user tok c)) = verification_tokens d"
    by (simp add: eq)
  from a b c dd show ?thesis by blast
qed

text \<open>Alice presents the code that was issued to Bob: Alice is verified, Bob is not.\<close>

theorem verifyEmail_marks_requester_witness:
  "findFirst_verification ex_db ''t-bob'' 11111111 =
     Some \<lparr>vt_id = 1, vt_admin_id = Some 2, vt_teacher_id = None, vt_student_id = None,
          vt_code = 11111111, vt_token = ''t-bob'', vt_verify_type = EMAIL, vt_expires_at = 1000\<rparr>
   \<and> find_user_by_email ex_db (ru_role ex_alice_user) (ru_email ex_alice_user) = Some ex_alice
   \<and> sent (o_res (verifyEmail ex_db ex_sys ex_alice_user ''t-bob'' 11111111))
       = Some (200, Message ''Verification successful'')
   \<and> find_user_by_email (o_db (verifyEmail ex_db ex_sys ex_alice_user ''t-bob'' 11111111))
         ''admin'' ''alice@x.com''
       = Some (ex_alice\<lparr>u_email_verified_at := Some 5000000\<rparr>)
   \<and> find_user_by_email (o_db (verifyEmail ex_db ex_sys ex_alice_user ''t-bob'' 11111111))
         ''admin'' ''bob@x.com''
       = Some ex_bob"
proof -
  have h1: "findFirst_verification ex_db ''t-bob'' 11111111 =
     Some \<lparr>vt_id = 1, vt_admin_id = Some 2, vt_teacher_id = None, vt_student_id = None,
          vt_code = 11111111, vt_token = ''t-bob'', vt_verify_type = EMAIL, vt_expires_at = 1000\<rparr>"
    by (simp add: findFirst_verification_def ex_db_def)
  have h2: "find_user_by_email ex_db (ru_role ex_alice_user) (ru_email ex_alice_user) = Some ex_alice"
    by (simp add: find_user_by_email_def findUnique_email_def ex_db_def ex_alice_user_def ex_alice_def)
  have h3: "find_user_by_email ex_db ''admin'' ''bob@x.com'' = Some ex_bob"
    by (simp add: find_user_by_email_def findUnique_email_def ex_db_def ex_bob_def ex_alice_def)
  have n: "now_ms ex_sys = 5000000" by (simp add: ex_sys_def)
  have q: "(''admin'', ''bob@x.com'') \<noteq> (ru_role ex_alice_user, ru_email ex_alice_user)"
    by (simp add: ex_alice_user_def)
  have e: "ru_role ex_alice_user = ''admin''" "ru_email ex_alice_user = ''alice@x.com''"
    by (simp_all add: ex_alice_user_def)
  from verifyEmail_marks_requester [OF h1 h2, of ex_sys] h1 h2 h3 n q e show ?thesis
    by metis
qed

lemma mark_verified_again:
  assumes "mark_verified r user n tbl = Inr tbl'"
  shows "\<exists>tbl''. mark_verified r user n' tbl' = Inr tbl''"
  using assms
  by (auto simp: mark_verified_def prisma_update_def find_map_same split: option.splits if_splits)

lemma verifyEmail_codes_kept:
  "verification_tokens (o_db (verifyEmail d s user tok c)) = verification_tokens d"
  by (auto simp: verifyEmail_def reply_def res_json_res0 bindE_def split: option.splits sum.splits)

lemma verifyEmail_success_iff:
  "(sent (o_res (verifyEmail d s user tok c)) = Some (200, Message ''Verification successful''))
   = (findFirst_verification d tok c \<noteq> None
      \<and> (\<exists>a. mark_verified ''admin'' user (now_ms s) (admins d) = Inr a)
      \<and> (\<exists>t. mark_verified ''teacher'' user (now_ms s) (teachers d) = Inr t)
      \<and> (\<exists>st. mark_verified ''student'' user (now_ms s) (students d) = Inr st))"
  by (auto simp: verifyEmail_def reply_def res_json_def bindE_def res0_def
      split: option.splits sum.splits)

lemma verifyEmail_success_db:
  assumes "sent (o_res (verifyEmail d s user tok c)) = Some (200, Message ''Verification successful'')"
  shows "\<exists>a t st. mark_verified ''admin'' user (now_ms s) (admins d) = Inr a
      \<and> mark_verified ''teacher'' user (now_ms s) (teachers d) = Inr t
      \<and> mark_verified ''student'' user (now_ms s) (students d) = Inr st
      \<and> o_db (verifyEmail d s user tok c) = d\<lparr>admins := a, teachers := t, students := st\<rparr>"
  using assms
  by (auto simp: verifyEmail_def reply_def res_json_def bindE_def res0_def
      split: option.splits sum.splits)

text \<open>
  Claim C2, as the code has it. \<open>verifyEmail\<close> never writes to the table of codes: after
  a call that succeeded, the table is what it was, the same row still matches, and the
  same requester presenting the same token and code again, at any later time, gets the
  success reply again. The code is not consumed.
\<close>

theorem verifyEmail_replay_succeeds:
  assumes ok: "sent (o_res (verifyEmail d s user tok c)) = Some (200, Message ''Verification successful'')"
  shows "verification_tokens (o_db (verifyEmail d s user tok c)) = verification_tokens d
     \<and> findFirst_verification (o_db (verifyEmail d s user tok c)) tok c = findFirst_verification d tok c
     \<and> findFirst_verification d tok c \<noteq> None
     \<and> sent (o_res (verifyEmail (o_db (verifyEmail d s user tok c)) s' user tok c))
         = Some (200, Message ''Verification successful'')"
proof -
  let ?d' = "o_db (verifyEmail d s user tok c)"
  have k: "verification_tokens ?d' = verification_tokens d"
    by (rule verifyEmail_codes_kept)
  have f: "findFirst_verification ?d' tok c = findFirst_verification d tok c"
    by (simp add: findFirst_verification_def k)
  have m: "findFirst_verification d tok c \<noteq> None"
    using ok by (simp add: verifyEmail_success_iff)
  obtain a t st where
    a: "mark_verified ''admin'' user (now_ms s) (admins d) = Inr a" and
    t: "mark_verified ''teacher'' user (now_ms s) (teachers d) = Inr t" and
    st: "mark_verified ''student'' user (now_ms s) (students d) = Inr st" and
    d': "?d' = d\<lparr>admins := a, teachers := t, students := st\<rparr>"
    using verifyEmail_success_db [OF ok] by blast
  have "sent (o_res (verifyEmail ?d' s' user tok c)) = Some (200, Message ''Verification successful'')"
    unfolding verifyEmail_success_iff
    using m f mark_verified_again [OF a] mark_verified_again [OF t] mark_verified_again [OF st]
    by (simp add: d')
  with k f m show ?thesis by blast
qed

text \<open>
  Alice verifies with her own code, then presents the same token and code once more, a
  thousand seconds later: the second reply is not \<open>Invalid Code\<close>.
\<close>

theorem verifyEmail_replay_counterexample:
  "sent (o_res (verifyEmail ex_db ex_sys ex_alice_user ''t-alice'' 33333333))
     = Some (200, Message ''Verification successful'')
   \<and> verification_tokens (o_db (verifyEmail ex_db ex_sys ex_alice_user ''t-alice'' 33333333))
       = verification_tokens ex_db
   \<and> sent (o_res (verifyEmail (o_db (verifyEmail ex_db ex_sys ex_alice_user ''t-alice'' 33333333))
                      (ex_sys\<lparr>now_ms := 6000000\<rparr>) ex_alice_user ''t-alice'' 33333333))
       \<noteq> Some (200, Message ''Invalid Code'')"
  by (simp add: verifyEmail_def findFirst_verification_def mark_verified_def prisma_update_def
      findUnique_email_def bindE_def reply_def res_json_def res0_def
      ex_db_def ex_sys_def ex_alice_user_def ex_alice_def ex_bob_def)

theorem verifyEmail_replay_succeeds_witness:
  "sent (o_res (verifyEmail ex_db ex_sys ex_alice_user ''t-alice'' 33333333))
     = Some (200, Message ''Verification successful'')
   \<and> sent (o_res (verifyEmail (o_db (verifyEmail ex_db ex_sys ex_alice_user ''t-alice'' 33333333))
                      (ex_sys\<lparr>now_ms := 6000000\<rparr>) ex_alice_user ''t-alice'' 33333333))
       = Some (200, Message ''Verification successful'')"
proof -
  have h: "sent (o_res (verifyEmail ex_db ex_sys ex_alice_user ''t-alice'' 33333333))
     = Some (200, Message ''Verification successful'')"
    by (simp add: verifyEmail_def findFirst_verification_def mark_verified_def prisma_update_def
      findUnique_email_def bindE_def reply_def res_json_def res0_def
      ex_db_def ex_sys_def ex_alice_user_def ex_alice_def ex_bob_def)
  from verifyEmail_replay_succeeds [OF h, of "ex_sys\<lparr>now_ms := 6000000\<rparr>"] h show ?thesis
    by simp
qed

section \<open>Expiry of verification codes\<close>

text \<open>
  Claim C5, as the code has it. Neither \<open>verifyEmail\<close> nor \<open>verifyResetCode\<close> reads
  \<open>expires_at\<close>: a row that matches the token and the code is accepted although its
  expiry has passed. \<open>verifyEmail\<close> then replies with the success message (for a
  requester who is a row of the table of its role), and \<open>verifyResetCode\<close> replies with
  a reset token for the principal of the row.
\<close>

theorem expired_code_accepted:
  assumes m: "findFirst_verification d tok c = Some v"
    and x: "vt_expires_at v < now_ms s"
    and u: "find_user_by_email d (ru_role user) (ru_email user) = Some u"
  shows "sent (o_res (verifyEmail d s user tok c)) = Some (200, Message ''Verification successful'')
     \<and> sent (o_res (verifyResetCode ev d s tok c))
         = Some (200, MessageToken ''Verification successful''
                      (jwt_sign (Payload None (fst (reset_identity v)) (snd (reset_identity v)))
                         (RESET_TOKEN_SECRET ev) 240 (now_ms s)))"
proof -
  have a: "sent (o_res (verifyEmail d s user tok c)) = Some (200, Message ''Verification successful'')"
    by (simp add: verifyEmail_found [OF m u] res0_def)
  have b: "sent (o_res (verifyResetCode ev d s tok c))
         = Some (200, MessageToken ''Verification successful''
                      (jwt_sign (Payload None (fst (reset_identity v)) (snd (reset_identity v)))
                         (RESET_TOKEN_SECRET ev) 240 (now_ms s)))"
    by (simp add: verifyResetCode_def m reply_def res_json_def res0_def split: prod.splits)
  from a b show ?thesis by blast
qed

text \<open>
  Bob's code expired at time 1000 (milliseconds); at 5000 seconds both handlers accept it.
\<close>

theorem expired_code_counterexample:
  "findFirst_verification ex_db ''t-bob'' 11111111 =
     Some \<lparr>vt_id = 1, vt_admin_id = Some 2, vt_teacher_id = None, vt_student_id = None,
          vt_code = 11111111, vt_token = ''t-bob'', vt_verify_type = EMAIL, vt_expires_at = 1000\<rparr>
   \<and> (1000::nat) < now_ms ex_sys
   \<and> sent (o_res (verifyEmail ex_db ex_sys ex_alice_user ''t-bob'' 11111111))
       \<noteq> Some (200, Message ''Invalid Code'')
   \<and> sent (o_res (verifyResetCode ex_env ex_db ex_sys ''t-bob'' 11111111))
       \<noteq> Some (200, Message ''Invalid Code'')"
  by (simp add: verifyEmail_def verifyResetCode_def findFirst_verification_def mark_verified_def
      prisma_update_def findUnique_email_def bindE_def reply_def res_json_def res0_def
      reset_identity_def truthy_def jwt_sign_def
      ex_db_def ex_sys_def ex_env_def ex_alice_user_def ex_alice_def ex_bob_def)

theorem expired_code_accepted_witness:
  "vt_expires_at \<lparr>vt_id = 1, vt_admin_id = Some 2, vt_teacher_id = None, vt_student_id = None,
          vt_code = 11111111, vt_token = ''t-bob'', vt_verify_type = EMAIL, vt_expires_at = 1000\<rparr>
      < now_ms ex_sys
   \<and> sent (o_res (verifyEmail ex_db ex_sys ex_alice_user ''t-bob'' 11111111))
       = Some (200, Message ''Verification successful'')
   \<and> sent (o_res (verifyResetCode ex_env ex_db ex_sys ''t-bob'' 11111111))
       = Some (200, MessageToken ''Verification successful''
                 (JWT (Payload None (Some 2) (Some ''admin'')) ''p-secret'' 5000 5240))"
proof -
  let ?v = "\<lparr>vt_id = 1, vt_admin_id = Some 2, vt_teacher_id = None, vt_student_id = None,
          vt_code = 11111111, vt_token = ''t-bob'', vt_verify_type = EMAIL, vt_expires_at = 1000\<rparr>"
  have h1: "findFirst_verification ex_db ''t-bob'' 11111111 = Some ?v"
    by (simp add: findFirst_verification_def ex_db_def)
  have h2: "vt_expires_at ?v < now_ms ex_sys"
    by (simp add: ex_sys_def)
  have h3: "find_user_by_email ex_db (ru_role ex_alice_user) (ru_email ex_alice_user) = Some ex_alice"
    by (simp add: find_user_by_email_def findUnique_email_def ex_db_def ex_alice_user_def ex_alice_def)
  have i: "reset_identity ?v = (Some 2, Some ''admin'')"
    by (simp add: reset_identity_def truthy_def)
  have j: "jwt_sign (Payload None (Some 2) (Some ''admin'')) (RESET_TOKEN_SECRET ex_env) 240 (now_ms ex_sys)
        = JWT (Payload None (Some 2) (Some ''admin'')) ''p-secret'' 5000 5240"
    by (simp add: jwt_sign_def ex_env_def ex_sys_def)
  from expired_code_accepted [OF h1 h2 h3, of ex_env] h2 i j show ?thesis
    by simp
qed

section \<open>resendEmail\<close>

lemma resendEmail_verified:
  assumes "ru_email_verified_at user \<noteq> None"
  shows "resendEmail d s user =
      \<lparr>o_db = d, o_res = res0\<lparr>sent := Some (200, Message ''Your email is already verified'')\<rparr>,
       o_err = Some ERR_HTTP_HEADERS_SENT\<rparr>"
  using assms by (simp add: resendEmail_def res_json_def res0_def reply_def)

lemma resendEmail_unverified:
  assumes v: "ru_email_verified_at user = None"
    and a: "findUnique_email (admins d) (ru_email user) = Some a"
    and i: "u_id a = ru_id user"
    and mail: "mail_ok s"
  shows "resendEmail d s user =
      \<lparr>o_db = d\<lparr>verification_tokens :=
                 filter (\<lambda>v. vt_admin_id v \<noteq> Some (ru_id user)) (verification_tokens d) @
                 [\<lparr>vt_id = seq_verification_tokens d, vt_admin_id = Some (ru_id user),
                   vt_teacher_id = None, vt_student_id = None, vt_code = rand_code s,
                   vt_token = uuid s, vt_verify_type = EMAIL,
                   vt_expires_at = now_ms s + 86400000\<rparr>],
               seq_verification_tokens := Suc (seq_verification_tokens d)\<rparr>,
       o_res = res0\<lparr>sent := Some (200, Message ''A new verification code has been sent to your email'')\<rparr>,
       o_err = None\<rparr>"
  using assms
  by (simp add: resendEmail_def delete_admin_codes_def sendEmailVerifyCode_def vt_create_def
      bindE_def reply_def res_json_res0)

text \<open>
  Claim C9, as the code has it. A requester whose \<open>email_verified_at\<close> is set gets the
  reply that the email is verified and the store is untouched. Otherwise, for a requester
  who is a row of \<open>admins\<close> (the handler names that table and the role \<open>admin\<close>
  literally) and a mail that goes out: every code row of the requester goes, whatever
  its \<open>verify_type\<close>, since the \<open>deleteMany\<close> filters by \<open>admin_id\<close> only; one fresh
  \<open>EMAIL\<close> row is appended; the code rows of everybody else and all other tables stay.
\<close>

theorem resendEmail_effect:
  "(ru_email_verified_at user \<noteq> None \<longrightarrow>
      o_db (resendEmail d s user) = d
      \<and> sent (o_res (resendEmail d s user)) = Some (200, Message ''Your email is already verified''))
   \<and> (ru_email_verified_at user = None \<and> findUnique_email (admins d) (ru_email user) = Some a
        \<and> u_id a = ru_id user \<and> mail_ok s \<longrightarrow>
      sent (o_res (resendEmail d s user))
        = Some (200, Message ''A new verification code has been sent to your email'')
      \<and> verification_tokens (o_db (resendEmail d s user))
        = filter (\<lambda>v. \<not> code_of ''admin'' (ru_id user) v) (verification_tokens d) @
          [\<lparr>vt_id = seq_verification_tokens d, vt_admin_id = Some (ru_id user),
            vt_teacher_id = None, vt_student_id = None, vt_code = rand_code s,
            vt_token = uuid s, vt_verify_type = EMAIL, vt_expires_at = now_ms s + 86400000\<rparr>]
      \<and> admins (o_db (resendEmail d s user)) = admins d
      \<and> teachers (o_db (resendEmail d s user)) = teachers d
      \<and> students (o_db (resendEmail d s user)) = students d
      \<and> personal_tokens (o_db (resendEmail d s user)) = personal_tokens d)"
proof (intro conjI impI)
  assume "ru_email_verified_at user \<noteq> None"
  note eq = resendEmail_verified [OF this, of d s]
  show "o_db (resendEmail d s user) = d" by (simp add: eq)
  show "sent (o_res (resendEmail d s user)) = Some (200, Message ''Your email is already verified'')"
    by (simp add: eq)
next
  assume h: "ru_email_verified_at user = None \<and> findUnique_email (admins d) (ru_email user) = Some a
        \<and> u_id a = ru_id user \<and> mail_ok s"
  then have eq: "resendEmail d s user =
      \<lparr>o_db = d\<lparr>verification_tokens :=
                 filter (\<lambda>v. vt_admin_id v \<noteq> Some (ru_id user)) (verification_tokens d) @
                 [\<lparr>vt_id = seq_verification_tokens d, vt_admin_id = Some (ru_id user),
                   vt_teacher_id = None, vt_student_id = None, vt_code = rand_code s,
                   vt_token = uuid s, vt_verify_type = EMAIL,
                   vt_expires_at = now_ms s + 86400000\<rparr>],
               seq_verification_tokens := Suc (seq_verification_tokens d)\<rparr>,
       o_res = res0\<lparr>sent := Some (200, Message ''A new verification code has been sent to your email'')\<rparr>,
       o_err = None\<rparr>"
    using resendEmail_unverified [of user d a s] by blast
  show "sent (o_res (resendEmail d s user))
        = Some (200, Message ''A new verification code has been sent to your email'')"
    by (simp add: eq)
  show "verification_tokens (o_db (resendEmail d s user))
        = filter (\<lambda>v. \<not> code_of ''admin'' (ru_id user) v) (verification_tokens d) @
          [\<lparr>vt_id = seq_verification_tokens d, vt_admin_id = Some (ru_id user),
            vt_teacher_id = None, vt_student_id = None, vt_code = rand_code s,
            vt_token = uuid s, vt_verify_type = EMAIL, vt_expires_at = now_ms s + 86400000\<rparr>]"
    by (simp add: eq code_of_def)
  show "admins (o_db (resendEmail d s user)) = admins d" by (simp add: eq)
  show "teachers (o_db (resendEmail d s user)) = teachers d" by (simp add: eq)
  show "students (o_db (resendEmail d s user)) = students d" by (simp add: eq)
  show "personal_tokens (o_db (resendEmail d s user)) = personal_tokens d" by (simp add: eq)
qed

text \<open>
  Alice has not verified her email and holds a \<open>PASSWORD_RESET\<close> code; a resend
  deletes it.
\<close>

theorem resendEmail_counterexample:
  "ru_email_verified_at ex_alice_user = None
   \<and> \<lparr>vt_id = 2, vt_admin_id = Some 1, vt_teacher_id = None, vt_student_id = None,
       vt_code = 22222222, vt_token = ''t-alice-reset'', vt_verify_type = PASSWORD_RESET,
       vt_expires_at = 9000000\<rparr> \<in> set (verification_tokens ex_db)
   \<and> \<lparr>vt_id = 2, vt_admin_id = Some 1, vt_teacher_id = None, vt_student_id = None,
       vt_code = 22222222, vt_token = ''t-alice-reset'', vt_verify_type = PASSWORD_RESET,
       vt_expires_at = 9000000\<rparr> \<notin> set (verification_tokens (o_db (resendEmail ex_db ex_sys ex_alice_user)))"
  by (simp add: resendEmail_def delete_admin_codes_def sendEmailVerifyCode_def vt_create_def
      findUnique_email_def bindE_def reply_def res_json_def res0_def
      ex_db_def ex_sys_def ex_alice_user_def ex_alice_def ex_bob_def)

theorem resendEmail_effect_witness:
  "o_db (resendEmail ex_db ex_sys (ex_alice_user\<lparr>ru_email_verified_at := Some 4000000\<rparr>)) = ex_db
   \<and> sent (o_res (resendEmail ex_db ex_sys (ex_alice_user\<lparr>ru_email_verified_at := Some 4000000\<rparr>)))
       = Some (200, Message ''Your email is already verified'')
   \<and> ru_email_verified_at ex_alice_user = None
   \<and> findUnique_email (admins ex_db) (ru_email ex_alice_user) = Some ex_alice
   \<and> u_id ex_alice = ru_id ex_alice_user \<and> mail_ok ex_sys
   \<and> verification_tokens (o_db (resendEmail ex_db ex_sys ex_alice_user))
       = [\<lparr>vt_id = 1, vt_admin_id = Some 2, vt_teacher_id = None, vt_student_id = None,
           vt_code = 11111111, vt_token = ''t-bob'', vt_verify_type = EMAIL, vt_expires_at = 1000\<rparr>,
          \<lparr>vt_id = 4, vt_admin_id = Some 1, vt_teacher_id = None, vt_student_id = None,
           vt_code = 44444444, vt_token = ''t-new'', vt_verify_type = EMAIL,
           vt_expires_at = 91400000\<rparr>]"
proof -
  have v: "ru_email_verified_at (ex_alice_user\<lparr>ru_email_verified_at := Some 4000000\<rparr>) \<noteq> None"
    by simp
  have h: "ru_email_verified_at ex_alice_user = None
     \<and> findUnique_email (admins ex_db) (ru_email ex_alice_user) = Some ex_alice
     \<and> u_id ex_alice = ru_id ex_alice_user \<and> mail_ok ex_sys"
    by (simp add: findUnique_email_def ex_db_def ex_alice_user_def ex_alice_def ex_sys_def)
  have f: "filter (\<lambda>v. \<not> code_of ''admin'' (ru_id ex_alice_user) v) (verification_tokens ex_db) @
          [\<lparr>vt_id = seq_verification_tokens ex_db, vt_admin_id = Some (ru_id ex_alice_user),
            vt_teacher_id = None, vt_student_id = None, vt_code = rand_code ex_sys,
            vt_token = uuid ex_sys, vt_verify_type = EMAIL, vt_expires_at = now_ms ex_sys + 86400000\<rparr>]
        = [\<lparr>vt_id = 1, vt_admin_id = Some 2, vt_teacher_id = None, vt_student_id = None,
           vt_code = 11111111, vt_token = ''t-bob'', vt_verify_type = EMAIL, vt_expires_at = 1000\<rparr>,
          \<lparr>vt_id = 4, vt_admin_id = Some 1, vt_teacher_id = None, vt_student_id = None,
           vt_code = 44444444, vt_token = ''t-new'', vt_verify_type = EMAIL,
           vt_expires_at = 91400000\<rparr>]"
    by (simp add: code_of_def ex_db_def ex_alice_user_def ex_sys_def)
  from resendEmail_effect [of "ex_alice_user\<lparr>ru_email_verified_at := Some 4000000\<rparr>" ex_db ex_sys ex_alice]
       resendEmail_effect [of ex_alice_user ex_db ex_sys ex_alice] v h f
  show ?thesis by simp
qed

section \<open>refreshAuthToken\<close>

text \<open>
  With a cookie that is not empty, the handler clears the cookie and takes one of two
  paths, by whether some session row holds the presented token.
\<close>

lemma refresh_frame:
  assumes "cookie rq = Some tok" and "tok \<noteq> Raw []"
  shows "refreshAuthToken ev d s rq =
     (if filter (\<lambda>r. pt_refresh_token r = tok) (personal_tokens d) = []
      then refresh_reuse ev d s (res0\<lparr>cookie_ops := [ClearCookie ''express_jwt'']\<rparr>) tok
      else refresh_rotate ev d s (res0\<lparr>cookie_ops := [ClearCookie ''express_jwt'']\<rparr>) tok)"
  using assms by (simp add: refreshAuthToken_def res_clearCookie_def res0_def)

lemma refresh_reuse_res:
  "o_res (refresh_reuse ev d s (res0\<lparr>cookie_ops := [ClearCookie ''express_jwt'']\<rparr>) tok)
     = \<lparr>statusCode = 403, sent = Some (403, Message ''Forbidden''),
        cookie_ops = [ClearCookie ''express_jwt'']\<rparr>"
  by (simp add: refresh_reuse_def reply_def res_json_def res_status_def res0_def
      split: option.splits sum.splits)

lemma refresh_reuse_db_invalid:
  "jwt_verify tok (REFRESH_TOKEN_SECRET ev) (now_ms s) = None \<Longrightarrow>
   o_db (refresh_reuse ev d s (res0\<lparr>cookie_ops := [ClearCookie ''express_jwt'']\<rparr>) tok) = d"
  by (simp add: refresh_reuse_def reply_def res_json_def res_status_def res0_def)

lemma lookup_decoded_found:
  "p_role decoded = Some role \<Longrightarrow> p_email decoded = Some e \<Longrightarrow>
   find_user_by_email d role e = Some u \<Longrightarrow> lookup_decoded d decoded = Inr (Some u)"
  by (auto simp: lookup_decoded_def find_user_by_email_def split: if_splits)

lemma deleteMany_session_of:
  "role = ''admin'' \<or> role = ''teacher'' \<or> role = ''student'' \<Longrightarrow>
   deleteMany_personal_tokens d (Some role) i
     = d\<lparr>personal_tokens := filter (\<lambda>r. \<not> session_of role i r) (personal_tokens d)\<rparr>"
  by (auto simp: deleteMany_personal_tokens_def session_of_def)

lemma find_user_role:
  "find_user_by_email d role e = Some u \<Longrightarrow>
   role = ''admin'' \<or> role = ''teacher'' \<or> role = ''student''"
  by (auto simp: find_user_by_email_def split: if_splits)

lemma find_user_email:
  "find_user_by_email d role e = Some u \<Longrightarrow> u_email u = e"
  by (auto simp: find_user_by_email_def findUnique_email_def find_Some_iff split: if_splits)

lemma refresh_reuse_db_valid:
  assumes "jwt_verify tok (REFRESH_TOKEN_SECRET ev) (now_ms s) = Some decoded"
    and "p_role decoded = Some role" and "p_email decoded = Some e"
    and "find_user_by_email d role e = Some u"
  shows "o_db (refresh_reuse ev d s (res0\<lparr>cookie_ops := [ClearCookie ''express_jwt'']\<rparr>) tok)
     = d\<lparr>personal_tokens := filter (\<lambda>r. \<not> session_of role (u_id u) r) (personal_tokens d)\<rparr>"
  using assms lookup_decoded_found [OF assms(2,3,4)] find_user_role [OF assms(4)]
  by (simp add: refresh_reuse_def reuse_callback_def bindE_def reply_def res_json_def
      res_status_def res0_def deleteMany_session_of)

lemma refresh_rotate_ok:
  assumes v: "jwt_verify tok (REFRESH_TOKEN_SECRET ev) (now_ms s) = Some decoded"
    and pr: "p_role decoded = Some role" and pe: "p_email decoded = Some e"
    and u: "find_user_by_email d role e = Some u"
    and fits: "now_ms s div 1000 + 604800 \<le> int4_max"
  shows "refresh_rotate ev d s (res0\<lparr>cookie_ops := [ClearCookie ''express_jwt'']\<rparr>) tok =
     \<lparr>o_db = d\<lparr>personal_tokens :=
                 map (\<lambda>r. if pt_refresh_token r = tok
                           then r\<lparr>pt_refresh_token :=
                                    jwt_sign (Payload (Some e) None (Some role))
                                      (REFRESH_TOKEN_SECRET ev) 604800 (now_ms s),
                                  pt_expires_at := now_ms s div 1000 + 604800\<rparr>
                           else r)
                   (personal_tokens d)\<rparr>,
       o_res = \<lparr>statusCode = 200,
                sent = Some (200, AccessToken (jwt_sign (Payload (Some e) None (Some role))
                                                (ACCESS_TOKEN_SECRET ev) 120 (now_ms s))),
                cookie_ops = [ClearCookie ''express_jwt'',
                              SetCookie ''express_jwt''
                                (jwt_sign (Payload (Some e) None (Some role))
                                   (REFRESH_TOKEN_SECRET ev) 604800 (now_ms s))]\<rparr>,
       o_err = None\<rparr>"
  using v pr fits lookup_decoded_found [OF pr pe u] find_user_email [OF u]
  by (simp add: refresh_rotate_def jwt_sign_def reply_def res_json_def res_cookie_def res0_def Let_def)

text \<open>
  Claim C1. The presented refresh token is held by no session row. Then the response is
  403 \<open>Forbidden\<close> with the cookie cleared, the same response object whether or not the
  token verifies. If the token does not verify against the refresh secret, the store is
  unchanged. If it verifies and its decoded email and role name a principal, the session
  table loses exactly the rows of that principal, so none of them is left, and nothing
  else changes.
\<close>

theorem refresh_reuse_detected:
  assumes c: "cookie rq = Some tok" and ne: "tok \<noteq> Raw []"
    and zero: "\<forall>r \<in> set (personal_tokens d). pt_refresh_token r \<noteq> tok"
  shows "o_res (refreshAuthToken ev d s rq)
           = \<lparr>statusCode = 403, sent = Some (403, Message ''Forbidden''),
              cookie_ops = [ClearCookie ''express_jwt'']\<rparr>
     \<and> (jwt_verify tok (REFRESH_TOKEN_SECRET ev) (now_ms s) = None \<longrightarrow>
          o_db (refreshAuthToken ev d s rq) = d)
     \<and> (\<forall>decoded role e u.
            jwt_verify tok (REFRESH_TOKEN_SECRET ev) (now_ms s) = Some decoded
            \<and> p_role decoded = Some role \<and> p_email decoded = Some e
            \<and> find_user_by_email d role e = Some u \<longrightarrow>
          o_db (refreshAuthToken ev d s rq)
            = d\<lparr>personal_tokens := filter (\<lambda>r. \<not> session_of role (u_id u) r) (personal_tokens d)\<rparr>
          \<and> (\<forall>r \<in> set (personal_tokens (o_db (refreshAuthToken ev d s rq))).
                \<not> session_of role (u_id u) r))"
proof -
  have z: "filter (\<lambda>r. pt_refresh_token r = tok) (personal_tokens d) = []"
    using zero by (simp add: filter_empty_conv)
  have eq: "refreshAuthToken ev d s rq
      = refresh_reuse ev d s (res0\<lparr>cookie_ops := [ClearCookie ''express_jwt'']\<rparr>) tok"
    by (simp add: refresh_frame [OF c ne] z)
  have a: "o_res (refreshAuthToken ev d s rq)
           = \<lparr>statusCode = 403, sent = Some (403, Message ''Forbidden''),
              cookie_ops = [ClearCookie ''express_jwt'']\<rparr>"
    by (simp add: eq refresh_reuse_res)
  have b: "o_db (refreshAuthToken ev d s rq) = d"
    if "jwt_verify tok (REFRESH_TOKEN_SECRET ev) (now_ms s) = None"
    using that by (simp add: eq refresh_reuse_db_invalid)
  have cc: "o_db (refreshAuthToken ev d s rq)
            = d\<lparr>personal_tokens := filter (\<lambda>r. \<not> session_of role (u_id u) r) (personal_tokens d)\<rparr>"
    if "jwt_verify tok (REFRESH_TOKEN_SECRET ev) (now_ms s) = Some decoded"
      and "p_role decoded = Some role" and "p_email decoded = Some e"
      and "find_user_by_email d role e = Some u" for decoded role e u
    using refresh_reuse_db_valid [OF that] by (simp add: eq)
  have dd: "\<forall>r \<in> set (personal_tokens (o_db (refreshAuthToken ev d s rq))). \<not> session_of role (u_id u) r"
    if "jwt_verify tok (REFRESH_TOKEN_SECRET ev) (now_ms s) = Some decoded"
      and "p_role decoded = Some role" and "p_email decoded = Some e"
      and "find_user_by_email d role e = Some u" for decoded role e u
    by (simp add: cc [OF that])
  from a b cc dd show ?thesis by blast
qed

text \<open>
  A token of Alice that is signed and not stored revokes Alice's session and leaves
  Bob's; a string that is no token revokes nothing; the two responses are equal.
\<close>

theorem refresh_reuse_detected_witness:
  "o_res (refreshAuthToken ex_env ex_db ex_sys
            \<lparr>cookie = Some ex_alice_old_token, brand = None, model = None, authorization = None\<rparr>)
     = \<lparr>statusCode = 403, sent = Some (403, Message ''Forbidden''),
        cookie_ops = [ClearCookie ''express_jwt'']\<rparr>
   \<and> o_res (refreshAuthToken ex_env ex_db ex_sys
            \<lparr>cookie = Some (Raw ''junk''), brand = None, model = None, authorization = None\<rparr>)
     = \<lparr>statusCode = 403, sent = Some (403, Message ''Forbidden''),
        cookie_ops = [ClearCookie ''express_jwt'']\<rparr>
   \<and> jwt_verify (Raw ''junk'') (REFRESH_TOKEN_SECRET ex_env) (now_ms ex_sys) = None
   \<and> o_db (refreshAuthToken ex_env ex_db ex_sys
            \<lparr>cookie = Some (Raw ''junk''), brand = None, model = None, authorization = None\<rparr>)
     = ex_db
   \<and> jwt_verify ex_alice_old_token (REFRESH_TOKEN_SECRET ex_env) (now_ms ex_sys)
       = Some (Payload (Some ''alice@x.com'') None (Some ''admin''))
   \<and> find_user_by_email ex_db ''admin'' ''alice@x.com'' = Some ex_alice
   \<and> personal_tokens (o_db (refreshAuthToken ex_env ex_db ex_sys
            \<lparr>cookie = Some ex_alice_old_token, brand = None, model = None, authorization = None\<rparr>))
     = [\<lparr>pt_id = 2, pt_admin_id = Some 2, pt_teacher_id = None, pt_student_id = None,
         pt_user_device = Some ''unknown'', pt_refresh_token = ex_bob_token,
         pt_expires_at = 606800\<rparr>]"
proof -
  let ?rq1 = "\<lparr>cookie = Some ex_alice_old_token, brand = None, model = None, authorization = None\<rparr>"
  let ?rq2 = "\<lparr>cookie = Some (Raw ''junk''), brand = None, model = None, authorization = None\<rparr>"
  have c1: "cookie ?rq1 = Some ex_alice_old_token" by simp
  have n1: "ex_alice_old_token \<noteq> Raw []" by (simp add: ex_alice_old_token_def)
  have z1: "\<forall>r \<in> set (personal_tokens ex_db). pt_refresh_token r \<noteq> ex_alice_old_token"
    by (simp add: ex_db_def ex_alice_old_token_def ex_alice_token_def ex_bob_token_def)
  have c2: "cookie ?rq2 = Some (Raw ''junk'')" by simp
  have n2: "Raw ''junk'' \<noteq> Raw []" by simp
  have z2: "\<forall>r \<in> set (personal_tokens ex_db). pt_refresh_token r \<noteq> Raw ''junk''"
    by (simp add: ex_db_def ex_alice_token_def ex_bob_token_def)
  have v1: "jwt_verify ex_alice_old_token (REFRESH_TOKEN_SECRET ex_env) (now_ms ex_sys)
       = Some (Payload (Some ''alice@x.com'') None (Some ''admin''))"
    by (simp add: ex_alice_old_token_def ex_env_def ex_sys_def)
  have v2: "jwt_verify (Raw ''junk'') (REFRESH_TOKEN_SECRET ex_env) (now_ms ex_sys) = None"
    by simp
  have f: "find_user_by_email ex_db ''admin'' ''alice@x.com'' = Some ex_alice"
    by (simp add: find_user_by_email_def findUnique_email_def ex_db_def ex_alice_def)
  have p: "p_role (Payload (Some ''alice@x.com'') None (Some ''admin'')) = Some ''admin''"
     "p_email (Payload (Some ''alice@x.com'') None (Some ''admin'')) = Some ''alice@x.com''"
    by simp_all
  have k: "ex_db\<lparr>personal_tokens := filter (\<lambda>r. \<not> session_of ''admin'' (u_id ex_alice) r) (personal_tokens ex_db)\<rparr>
      = ex_db\<lparr>personal_tokens := [\<lparr>pt_id = 2, pt_admin_id = Some 2, pt_teacher_id = None, pt_student_id = None,
         pt_user_device = Some ''unknown'', pt_refresh_token = ex_bob_token,
         pt_expires_at = 606800\<rparr>]\<rparr>"
    by (simp add: session_of_def ex_db_def ex_alice_def)
  note t1 = refresh_reuse_detected [OF c1 n1 z1, of ex_env ex_sys]
  note t2 = refresh_reuse_detected [OF c2 n2 z2, of ex_env ex_sys]
  have d1: "o_db (refreshAuthToken ex_env ex_db ex_sys ?rq1)
      = ex_db\<lparr>personal_tokens := filter (\<lambda>r. \<not> session_of ''admin'' (u_id ex_alice) r) (personal_tokens ex_db)\<rparr>"
    using t1 v1 p f by blast
  have d2: "o_db (refreshAuthToken ex_env ex_db ex_sys ?rq2) = ex_db"
    using t2 v2 by blast
  from t1 t2 d1 d2 v1 v2 f k show ?thesis by simp
qed

section \<open>updatePassword\<close>

lemma find_id_found:
  "findUnique_id tbl i = Some u \<Longrightarrow> u_id u = i \<and> u \<in> set tbl"
  by (auto simp: findUnique_id_def find_Some_iff)

lemma find_email_unique:
  "unique_emails tbl \<Longrightarrow> u \<in> set tbl \<Longrightarrow> findUnique_email tbl (u_email u) = Some u"
  unfolding unique_emails_def findUnique_email_def
  by (induction tbl) auto

lemma find_id_map:
  "findUnique_id tbl i = Some u \<Longrightarrow>
   findUnique_id (map (\<lambda>x. if u_email x = u_email u then x\<lparr>u_password := h\<rparr> else x) tbl) i
     = Some (u\<lparr>u_password := h\<rparr>)"
  unfolding findUnique_id_def
  by (induction tbl) (auto split: if_splits)

lemma table_of_role:
  "findUnique_id (table_of d role) i = Some u \<Longrightarrow>
   role = ''admin'' \<or> role = ''teacher'' \<or> role = ''student''"
  by (auto simp: table_of_def findUnique_id_def split: if_splits)

lemma lookup_by_id_found:
  assumes "p_role decoded = Some role" and "p_id decoded = Some i"
    and "findUnique_id (table_of d role) i = Some u"
  shows "lookup_by_id d decoded = Inr (Some u)"
  using assms table_of_role [OF assms(3)]
  by (auto simp: lookup_by_id_def table_of_def)

lemma set_password_ok:
  assumes r: "role = ''admin'' \<or> role = ''teacher'' \<or> role = ''student''"
    and f: "findUnique_email (table_of d role) (u_email u) = Some u"
  shows "\<exists>d'. set_password d (Some role) u h = Inr d'
     \<and> personal_tokens d' = personal_tokens d
     \<and> verification_tokens d' = filter (\<lambda>v. \<not> code_of role (u_id u) v) (verification_tokens d)
     \<and> table_of d' role
          = map (\<lambda>x. if u_email x = u_email u then x\<lparr>u_password := h\<rparr> else x) (table_of d role)"
  using r f
  by (auto simp: set_password_def table_of_def code_of_def)

lemma deleteMany_tables:
  "table_of (deleteMany_personal_tokens d r i) role = table_of d role"
  "verification_tokens (deleteMany_personal_tokens d r i) = verification_tokens d"
  by (auto simp: deleteMany_personal_tokens_def table_of_def)

text \<open>
  The run of \<open>updatePassword\<close> for a reset token that verifies and names a row of the
  table of its role, the email column of that table being unique as the schema declares.
\<close>

lemma updatePassword_ok:
  assumes h: "authorization rq = Some (Bearer tk)"
    and v: "jwt_verify tk (RESET_TOKEN_SECRET ev) (now_ms s) = Some decoded"
    and pr: "p_role decoded = Some role" and pi: "p_id decoded = Some i"
    and u: "findUnique_id (table_of d role) i = Some u"
    and uniq: "unique_emails (table_of d role)"
  shows "\<exists>d'. updatePassword ev d s rq password
           = \<lparr>o_db = d', o_res = res0\<lparr>sent := Some (200, Message ''Password has been updated'')\<rparr>,
              o_err = None\<rparr>
     \<and> personal_tokens d' = filter (\<lambda>r. \<not> session_of role i r) (personal_tokens d)
     \<and> verification_tokens d' = filter (\<lambda>v. \<not> code_of role i v) (verification_tokens d)
     \<and> table_of d' role
          = map (\<lambda>x. if u_email x = u_email u then x\<lparr>u_password := bcrypt_hash password 12 (salt s)\<rparr> else x)
              (table_of d role)"
proof -
  have r: "role = ''admin'' \<or> role = ''teacher'' \<or> role = ''student''"
    by (rule table_of_role [OF u])
  have iu: "u_id u = i" and mem: "u \<in> set (table_of d role)"
    using find_id_found [OF u] by simp_all
  let ?d1 = "deleteMany_personal_tokens d (Some role) i"
  have d1: "?d1 = d\<lparr>personal_tokens := filter (\<lambda>r. \<not> session_of role i r) (personal_tokens d)\<rparr>"
    using r by (auto simp: deleteMany_personal_tokens_def session_of_def)
  have fe: "findUnique_email (table_of ?d1 role) (u_email u) = Some u"
    using find_email_unique [OF uniq mem] by (simp add: deleteMany_tables)
  obtain d' where sp: "set_password ?d1 (Some role) u (bcrypt_hash password 12 (salt s)) = Inr d'"
    and p: "personal_tokens d' = personal_tokens ?d1"
    and c: "verification_tokens d' = filter (\<lambda>v. \<not> code_of role (u_id u) v) (verification_tokens ?d1)"
    and t: "table_of d' role
          = map (\<lambda>x. if u_email x = u_email u then x\<lparr>u_password := bcrypt_hash password 12 (salt s)\<rparr> else x)
              (table_of ?d1 role)"
    using set_password_ok [OF r fe] by blast
  have tx: "updatePassword_tx d s decoded password = Inr (d', res0)"
    using sp by (simp add: updatePassword_tx_def lookup_by_id_found [OF pr pi u] bindE_def pr iu)
  have out: "updatePassword ev d s rq password
           = \<lparr>o_db = d', o_res = res0\<lparr>sent := Some (200, Message ''Password has been updated'')\<rparr>,
              o_err = None\<rparr>"
    by (simp add: updatePassword_def h v tx reply_def res_json_res0)
  have p': "personal_tokens d' = filter (\<lambda>r. \<not> session_of role i r) (personal_tokens d)"
    using p by (simp add: d1)
  have c': "verification_tokens d' = filter (\<lambda>v. \<not> code_of role i v) (verification_tokens d)"
    using c by (simp add: iu deleteMany_tables)
  have t': "table_of d' role
          = map (\<lambda>x. if u_email x = u_email u then x\<lparr>u_password := bcrypt_hash password 12 (salt s)\<rparr> else x)
              (table_of d role)"
    using t by (simp add: deleteMany_tables)
  from out p' c' t' show ?thesis by blast
qed

text \<open>
  A refresh whose token no session row holds is refused: 401 for the empty cookie, 403
  otherwise.
\<close>

lemma refresh_no_row:
  assumes c: "cookie rq = Some t"
    and z: "\<forall>r \<in> set (personal_tokens d). pt_refresh_token r \<noteq> t"
  shows "sent (o_res (refreshAuthToken ev d s rq))
     = Some (if t = Raw [] then (401, Message ''Unauthorized'') else (403, Message ''Forbidden''))"
proof (cases "t = Raw []")
  case True
  then show ?thesis
    using c by (simp add: refreshAuthToken_def reply_def res_json_def res_status_def res0_def)
next
  case False
  have "filter (\<lambda>r. pt_refresh_token r = t) (personal_tokens d) = []"
    using z by (simp add: filter_empty_conv)
  then show ?thesis
    using False by (simp add: refresh_frame [OF c False] refresh_reuse_res)
qed

text \<open>
  Claim C7. The \<open>Authorization\<close> header carries a token that verifies against the
  reset secret, and its decoded id and role name a row \<open>u\<close> of the table of the role
  (whose email column is unique, as the schema declares). Then the reply is the success
  message; the session table loses exactly the rows of that principal and the code
  table exactly the code rows of that principal; the principal's stored password is the
  bcrypt hash (cost 12) of the new password, which the new password matches. In the
  store that results, a refresh with any token that only rows of this principal held
  before the update (so every refresh token issued to it and still stored, and any
  token no row held) is refused, at any time.
\<close>

theorem updatePassword_revokes:
  assumes h: "authorization rq = Some (Bearer tk)"
    and v: "jwt_verify tk (RESET_TOKEN_SECRET ev) (now_ms s) = Some decoded"
    and pr: "p_role decoded = Some role" and pi: "p_id decoded = Some i"
    and u: "findUnique_id (table_of d role) i = Some u"
    and uniq: "unique_emails (table_of d role)"
  shows "sent (o_res (updatePassword ev d s rq password))
           = Some (200, Message ''Password has been updated'')
     \<and> personal_tokens (o_db (updatePassword ev d s rq password))
         = filter (\<lambda>r. \<not> session_of role i r) (personal_tokens d)
     \<and> verification_tokens (o_db (updatePassword ev d s rq password))
         = filter (\<lambda>v. \<not> code_of role i v) (verification_tokens d)
     \<and> findUnique_id (table_of (o_db (updatePassword ev d s rq password)) role) i
         = Some (u\<lparr>u_password := bcrypt_hash password 12 (salt s)\<rparr>)
     \<and> bcrypt_compare password (bcrypt_hash password 12 (salt s))
     \<and> (\<forall>t rq' s'.
           cookie rq' = Some t
           \<and> (\<forall>r \<in> set (personal_tokens d). pt_refresh_token r = t \<longrightarrow> session_of role i r) \<longrightarrow>
           sent (o_res (refreshAuthToken ev (o_db (updatePassword ev d s rq password)) s' rq'))
             = Some (if t = Raw [] then (401, Message ''Unauthorized'')
                     else (403, Message ''Forbidden'')))"
proof -
  obtain d' where out: "updatePassword ev d s rq password
           = \<lparr>o_db = d', o_res = res0\<lparr>sent := Some (200, Message ''Password has been updated'')\<rparr>,
              o_err = None\<rparr>"
    and p: "personal_tokens d' = filter (\<lambda>r. \<not> session_of role i r) (personal_tokens d)"
    and c: "verification_tokens d' = filter (\<lambda>v. \<not> code_of role i v) (verification_tokens d)"
    and t: "table_of d' role
          = map (\<lambda>x. if u_email x = u_email u then x\<lparr>u_password := bcrypt_hash password 12 (salt s)\<rparr> else x)
              (table_of d role)"
    using updatePassword_ok [OF h v pr pi u uniq, of password] by blast
  have a1: "sent (o_res (updatePassword ev d s rq password))
           = Some (200, Message ''Password has been updated'')"
    by (simp add: out)
  have a2: "personal_tokens (o_db (updatePassword ev d s rq password))
         = filter (\<lambda>r. \<not> session_of role i r) (personal_tokens d)"
    by (simp add: out p)
  have a3: "verification_tokens (o_db (updatePassword ev d s rq password))
         = filter (\<lambda>v. \<not> code_of role i v) (verification_tokens d)"
    by (simp add: out c)
  have a4: "findUnique_id (table_of (o_db (updatePassword ev d s rq password)) role) i
         = Some (u\<lparr>u_password := bcrypt_hash password 12 (salt s)\<rparr>)"
    by (simp add: out t find_id_map [OF u])
  have a5: "bcrypt_compare password (bcrypt_hash password 12 (salt s))"
    by (simp add: bcrypt_compare_def bcrypt_hash_def)
  have a6: "sent (o_res (refreshAuthToken ev (o_db (updatePassword ev d s rq password)) s' rq'))
             = Some (if t = Raw [] then (401, Message ''Unauthorized'')
                     else (403, Message ''Forbidden''))"
    if ck: "cookie rq' = Some t"
      and own: "\<forall>r \<in> set (personal_tokens d). pt_refresh_token r = t \<longrightarrow> session_of role i r"
    for t rq' s'
  proof -
    have "\<forall>r \<in> set (personal_tokens (o_db (updatePassword ev d s rq password))). pt_refresh_token r \<noteq> t"
      using own by (auto simp: a2)
    then show ?thesis by (rule refresh_no_row [OF ck])
  qed
  from a1 a2 a3 a4 a5 a6 show ?thesis by blast
qed

text \<open>
  Alice updates her password with a valid reset token: her session and her two codes
  are gone, Bob's remain, and a refresh with her old cookie a second later gets 403.
\<close>

theorem updatePassword_revokes_witness:
  "authorization \<lparr>cookie = None, brand = None, model = None,
                   authorization = Some (Bearer ex_alice_reset_token)\<rparr>
     = Some (Bearer ex_alice_reset_token)
   \<and> jwt_verify ex_alice_reset_token (RESET_TOKEN_SECRET ex_env) (now_ms ex_sys)
       = Some (Payload None (Some 1) (Some ''admin''))
   \<and> findUnique_id (table_of ex_db ''admin'') 1 = Some ex_alice
   \<and> unique_emails (table_of ex_db ''admin'')
   \<and> personal_tokens (o_db (updatePassword ex_env ex_db ex_sys
         \<lparr>cookie = None, brand = None, model = None,
          authorization = Some (Bearer ex_alice_reset_token)\<rparr> ''new-pw''))
       = [\<lparr>pt_id = 2, pt_admin_id = Some 2, pt_teacher_id = None, pt_student_id = None,
           pt_user_device = Some ''unknown'', pt_refresh_token = ex_bob_token,
           pt_expires_at = 606800\<rparr>]
   \<and> verification_tokens (o_db (updatePassword ex_env ex_db ex_sys
         \<lparr>cookie = None, brand = None, model = None,
          authorization = Some (Bearer ex_alice_reset_token)\<rparr> ''new-pw''))
       = [\<lparr>vt_id = 1, vt_admin_id = Some 2, vt_teacher_id = None, vt_student_id = None,
           vt_code = 11111111, vt_token = ''t-bob'', vt_verify_type = EMAIL, vt_expires_at = 1000\<rparr>]
   \<and> findUnique_id (table_of (o_db (updatePassword ex_env ex_db ex_sys
         \<lparr>cookie = None, brand = None, model = None,
          authorization = Some (Bearer ex_alice_reset_token)\<rparr> ''new-pw'')) ''admin'') 1
       = Some (ex_alice\<lparr>u_password := Bcrypt 12 ''s9'' ''new-pw''\<rparr>)
   \<and> sent (o_res (refreshAuthToken ex_env (o_db (updatePassword ex_env ex_db ex_sys
         \<lparr>cookie = None, brand = None, model = None,
          authorization = Some (Bearer ex_alice_reset_token)\<rparr> ''new-pw''))
         (ex_sys\<lparr>now_ms := 5001000\<rparr>)
         \<lparr>cookie = Some ex_alice_token, brand = None, model = None, authorization = None\<rparr>))
       = Some (403, Message ''Forbidden'')"
proof -
  let ?rq = "\<lparr>cookie = None, brand = None, model = None,
             authorization = Some (Bearer ex_alice_reset_token)\<rparr>"
  let ?rq' = "\<lparr>cookie = Some ex_alice_token, brand = None, model = None, authorization = None\<rparr>"
  have h: "authorization ?rq = Some (Bearer ex_alice_reset_token)" by simp
  have v: "jwt_verify ex_alice_reset_token (RESET_TOKEN_SECRET ex_env) (now_ms ex_sys)
       = Some (Payload None (Some 1) (Some ''admin''))"
    by (simp add: ex_alice_reset_token_def ex_env_def ex_sys_def)
  have pr: "p_role (Payload None (Some 1) (Some ''admin'')) = Some ''admin''" by simp
  have pi: "p_id (Payload None (Some 1) (Some ''admin'')) = Some 1" by simp
  have u: "findUnique_id (table_of ex_db ''admin'') 1 = Some ex_alice"
    by (simp add: table_of_def findUnique_id_def ex_db_def ex_alice_def)
  have uniq: "unique_emails (table_of ex_db ''admin'')"
    by (simp add: unique_emails_def table_of_def ex_db_def ex_alice_def ex_bob_def)
  have ck: "cookie ?rq' = Some ex_alice_token" by simp
  have own: "\<forall>r \<in> set (personal_tokens ex_db).
               pt_refresh_token r = ex_alice_token \<longrightarrow> session_of ''admin'' 1 r"
    by (simp add: ex_db_def session_of_def ex_alice_token_def ex_bob_token_def)
  have ne: "ex_alice_token \<noteq> Raw []" by (simp add: ex_alice_token_def)
  have f1: "filter (\<lambda>r. \<not> session_of ''admin'' 1 r) (personal_tokens ex_db)
      = [\<lparr>pt_id = 2, pt_admin_id = Some 2, pt_teacher_id = None, pt_student_id = None,
           pt_user_device = Some ''unknown'', pt_refresh_token = ex_bob_token,
           pt_expires_at = 606800\<rparr>]"
    by (simp add: session_of_def ex_db_def)
  have f2: "filter (\<lambda>v. \<not> code_of ''admin'' 1 v) (verification_tokens ex_db)
      = [\<lparr>vt_id = 1, vt_admin_id = Some 2, vt_teacher_id = None, vt_student_id = None,
           vt_code = 11111111, vt_token = ''t-bob'', vt_verify_type = EMAIL, vt_expires_at = 1000\<rparr>]"
    by (simp add: code_of_def ex_db_def)
  have b: "bcrypt_hash ''new-pw'' 12 (salt ex_sys) = Bcrypt 12 ''s9'' ''new-pw''"
    by (simp add: bcrypt_hash_def ex_sys_def)
  note t = updatePassword_revokes [OF h v pr pi u uniq, of "''new-pw''"]
  have r: "sent (o_res (refreshAuthToken ex_env (o_db (updatePassword ex_env ex_db ex_sys ?rq ''new-pw''))
         (ex_sys\<lparr>now_ms := 5001000\<rparr>) ?rq'))
       = Some (403, Message ''Forbidden'')"
    using t [THEN conjunct2, THEN conjunct2, THEN conjunct2, THEN conjunct2, THEN conjunct2,
             rule_format, OF conjI [OF ck own], of "ex_sys\<lparr>now_ms := 5001000\<rparr>"] ne
    by simp
  note t2 = t [THEN conjunct2, THEN conjunct1]
  note t3 = t [THEN conjunct2, THEN conjunct2, THEN conjunct1]
  note t4 = t [THEN conjunct2, THEN conjunct2, THEN conjunct2, THEN conjunct1]
  from t2 t3 t4 h v u uniq f1 f2 b r show ?thesis by simp
qed

section \<open>Tokens handed out\<close>

lemma admins_create_email:
  "admins_create d name email h school = Inr (d1, admin) \<Longrightarrow> u_email admin = email"
  by (auto simp: admins_create_def Let_def split: option.splits)

lemma jwt_decode_exp_sign:
  "jwt_decode_exp (jwt_sign p k life now) = Some (now div 1000 + life)"
  by (simp add: jwt_sign_def)

lemma signed_for_sign:
  "signed_for (jwt_sign (Payload (Some e) None (Some role)) k life now) k life e role"
  by (simp add: jwt_sign_def)

lemma register_tx_res:
  assumes "register_tx ev assignRole d s rq name email h school = Inr (d', r')"
  shows "r' = \<lparr>statusCode = 201,
               sent = Some (201, MessageAccessToken ''Account created''
                              (jwt_sign (Payload (Some email) None (Some ''admin''))
                                 (ACCESS_TOKEN_SECRET ev) 86400 (now_ms s))),
               cookie_ops = [SetCookie ''express_jwt''
                              (jwt_sign (Payload (Some email) None (Some ''admin''))
                                 (REFRESH_TOKEN_SECRET ev) 604800 (now_ms s))]\<rparr>"
  using assms
  by (auto simp: register_tx_def bindE_def Let_def jwt_decode_exp_sign res_cookie_def
      res_json_def res_status_def res0_def
      dest!: admins_create_email split: sum.splits prod.splits)

lemma register_issued:
  "set (issued_access (register ev assignRole d s rq name email password school))
     \<subseteq> {jwt_sign (Payload (Some email) None (Some ''admin'')) (ACCESS_TOKEN_SECRET ev) 86400 (now_ms s)}
   \<and> set (issued_refresh (register ev assignRole d s rq name email password school))
     \<subseteq> {jwt_sign (Payload (Some email) None (Some ''admin'')) (REFRESH_TOKEN_SECRET ev) 604800 (now_ms s)}"
proof (cases "register_tx ev assignRole d s rq name email (bcrypt_hash password 12 (salt s)) school")
  case (Inl e)
  then show ?thesis
    by (simp add: register_def issued_access_def issued_refresh_def res0_def)
next
  case (Inr x)
  obtain d' r' where x: "x = (d', r')" by (cases x)
  note r = register_tx_res [OF Inr [unfolded x]]
  show ?thesis
    by (simp add: register_def Inr x issued_access_def issued_refresh_def r)
qed

lemma login_tx_res:
  assumes "login_tx ev d s rq r1 email password role = Inr (d', r')"
  shows "sent r' = Some (statusCode r1, AccessToken
                              (jwt_sign (Payload (Some email) None (Some role))
                                 (ACCESS_TOKEN_SECRET ev) 86400 (now_ms s)))
       \<and> cookie_ops r' = cookie_ops r1 @ [SetCookie ''express_jwt''
                              (jwt_sign (Payload (Some email) None (Some role))
                                 (REFRESH_TOKEN_SECRET ev) 604800 (now_ms s))]"
  using assms
  by (auto simp: login_tx_def bindE_def Let_def jwt_decode_exp_sign res_cookie_def
      res_json_def split: option.splits if_splits sum.splits)

lemma cookie_tokens_append:
  "cookie_tokens (xs @ ys) = cookie_tokens xs @ cookie_tokens ys"
  by (induction xs rule: cookie_tokens.induct) auto

lemma login_issued:
  "set (issued_access (login ev d s rq email password role))
     \<subseteq> {jwt_sign (Payload (Some email) None (Some role)) (ACCESS_TOKEN_SECRET ev) 86400 (now_ms s)}
   \<and> set (issued_refresh (login ev d s rq email password role))
     \<subseteq> {jwt_sign (Payload (Some email) None (Some role)) (REFRESH_TOKEN_SECRET ev) 604800 (now_ms s)}"
proof -
  have "\<exists>r1. (if cookie_present (cookie rq) then res_clearCookie ''express_jwt'' res0 else Inr res0) = Inr r1
      \<and> cookie_tokens (cookie_ops r1) = [] \<and> sent r1 = None"
    by (simp add: res_clearCookie_def res0_def)
  then obtain r1 where c: "(if cookie_present (cookie rq) then res_clearCookie ''express_jwt'' res0 else Inr res0) = Inr r1"
    and r1: "cookie_tokens (cookie_ops r1) = []" "sent r1 = None"
    by blast
  show ?thesis
  proof (cases "login_tx ev d s rq r1 email password role")
    case (Inl e)
    then show ?thesis
      by (simp add: login_def c issued_access_def issued_refresh_def r1)
  next
    case (Inr x)
    obtain d' r' where x: "x = (d', r')" by (cases x)
    note r = login_tx_res [OF Inr [unfolded x]]
    show ?thesis
      by (simp add: login_def c Inr x issued_access_def issued_refresh_def r cookie_tokens_append r1)
  qed
qed

lemma refresh_rotate_issued:
  "set (issued_access (refresh_rotate ev d s (res0\<lparr>cookie_ops := [ClearCookie ''express_jwt'']\<rparr>) tok))
     \<subseteq> {a. \<exists>e role. a = jwt_sign (Payload (Some e) None (Some role)) (ACCESS_TOKEN_SECRET ev) 120 (now_ms s)}
   \<and> set (issued_refresh (refresh_rotate ev d s (res0\<lparr>cookie_ops := [ClearCookie ''express_jwt'']\<rparr>) tok))
     \<subseteq> {a. \<exists>e role. a = jwt_sign (Payload (Some e) None (Some role)) (REFRESH_TOKEN_SECRET ev) 604800 (now_ms s)}"
  by (auto simp: refresh_rotate_def issued_access_def issued_refresh_def reply_def Let_def
      res_json_def res_cookie_def res_status_def res0_def jwt_decode_exp_sign lookup_decoded_def
      split: option.splits sum.splits if_splits)

lemma refresh_reuse_issued:
  "issued_access (refresh_reuse ev d s (res0\<lparr>cookie_ops := [ClearCookie ''express_jwt'']\<rparr>) tok) = []
   \<and> issued_refresh (refresh_reuse ev d s (res0\<lparr>cookie_ops := [ClearCookie ''express_jwt'']\<rparr>) tok) = []"
  by (auto simp: refresh_reuse_def issued_access_def issued_refresh_def reply_def
      res_json_def res_status_def res0_def split: option.splits sum.splits)

lemma refresh_issued:
  "set (issued_access (refreshAuthToken ev d s rq))
     \<subseteq> {a. \<exists>e role. a = jwt_sign (Payload (Some e) None (Some role)) (ACCESS_TOKEN_SECRET ev) 120 (now_ms s)}
   \<and> set (issued_refresh (refreshAuthToken ev d s rq))
     \<subseteq> {a. \<exists>e role. a = jwt_sign (Payload (Some e) None (Some role)) (REFRESH_TOKEN_SECRET ev) 604800 (now_ms s)}"
proof (cases "cookie rq")
  case None
  then show ?thesis
    by (simp add: refreshAuthToken_def issued_access_def issued_refresh_def reply_def
        res_json_def res_status_def res0_def)
next
  case (Some tok)
  show ?thesis
  proof (cases "tok = Raw []")
    case True
    then show ?thesis
      using Some
      by (simp add: refreshAuthToken_def issued_access_def issued_refresh_def reply_def
          res_json_def res_status_def res0_def)
  next
    case False
    show ?thesis
      using refresh_rotate_issued [of ev d s tok] refresh_reuse_issued [of ev d s tok]
      by (simp add: refresh_frame [OF Some False])
  qed
qed

text \<open>
  Claim C8. Whatever the store, the request and the outcome: an access token in the
  reply of \<open>register\<close> or \<open>login\<close> is signed with the access secret for 86400 seconds
  (one day), an access token in the reply of \<open>refreshAuthToken\<close> for 120 seconds (two
  minutes), and a refresh token set as the cookie by any of the three is signed with the
  refresh secret for 604800 seconds (seven days). The payload is the email and the role:
  the registered email with \<open>admin\<close>, the email and role of the login, the email and
  role of the principal of the rotation.
\<close>

theorem token_lifetimes:
  "(\<forall>a \<in> set (issued_access (register ev assignRole d s rq name email password school)).
      signed_for a (ACCESS_TOKEN_SECRET ev) 86400 email ''admin'')
   \<and> (\<forall>t \<in> set (issued_refresh (register ev assignRole d s rq name email password school)).
      signed_for t (REFRESH_TOKEN_SECRET ev) 604800 email ''admin'')
   \<and> (\<forall>a \<in> set (issued_access (login ev d s rq email password role)).
      signed_for a (ACCESS_TOKEN_SECRET ev) 86400 email role)
   \<and> (\<forall>t \<in> set (issued_refresh (login ev d s rq email password role)).
      signed_for t (REFRESH_TOKEN_SECRET ev) 604800 email role)
   \<and> (\<forall>a \<in> set (issued_access (refreshAuthToken ev d s rq)).
      \<exists>e r. signed_for a (ACCESS_TOKEN_SECRET ev) 120 e r)
   \<and> (\<forall>t \<in> set (issued_refresh (refreshAuthToken ev d s rq)).
      \<exists>e r. signed_for t (REFRESH_TOKEN_SECRET ev) 604800 e r)"
proof -
  note reg = register_issued [of ev assignRole d s rq name email password school]
  note log = login_issued [of ev d s rq email password role]
  note ref = refresh_issued [of ev d s rq]
  have a: "\<forall>a \<in> set (issued_access (register ev assignRole d s rq name email password school)).
      signed_for a (ACCESS_TOKEN_SECRET ev) 86400 email ''admin''"
    using reg signed_for_sign by blast
  have b: "\<forall>t \<in> set (issued_refresh (register ev assignRole d s rq name email password school)).
      signed_for t (REFRESH_TOKEN_SECRET ev) 604800 email ''admin''"
    using reg signed_for_sign by blast
  have c: "\<forall>a \<in> set (issued_access (login ev d s rq email password role)).
      signed_for a (ACCESS_TOKEN_SECRET ev) 86400 email role"
    using log signed_for_sign by blast
  have dd: "\<forall>t \<in> set (issued_refresh (login ev d s rq email password role)).
      signed_for t (REFRESH_TOKEN_SECRET ev) 604800 email role"
    using log signed_for_sign by blast
  have e: "\<forall>a \<in> set (issued_access (refreshAuthToken ev d s rq)).
      \<exists>e r. signed_for a (ACCESS_TOKEN_SECRET ev) 120 e r"
    using ref signed_for_sign by blast
  have f: "\<forall>t \<in> set (issued_refresh (refreshAuthToken ev d s rq)).
      \<exists>e r. signed_for t (REFRESH_TOKEN_SECRET ev) 604800 e r"
    using ref signed_for_sign by blast
  from a b c dd e f show ?thesis by blast
qed

text \<open>
  Concrete runs at 5000 seconds: Carol registers, Alice logs in, Alice rotates.
\<close>

lemma ex_register_carol:
  "o_res (register ex_env (\<lambda>i r d. Inr d) ex_db ex_sys
     \<lparr>cookie = None, brand = Some ''Apple'', model = Some ''iPhone'', authorization = None\<rparr>
     ''Carol'' ''carol@x.com'' ''pw-carol'' ''Z'')
   = \<lparr>statusCode = 201,
      sent = Some (201, MessageAccessToken ''Account created''
               (JWT (Payload (Some ''carol@x.com'') None (Some ''admin'')) ''a-secret'' 5000 91400)),
      cookie_ops = [SetCookie ''express_jwt''
               (JWT (Payload (Some ''carol@x.com'') None (Some ''admin'')) ''r-secret'' 5000 609800)]\<rparr>"
  by (simp add: register_def register_tx_def admins_create_def sendEmailVerifyCode_def
      vt_create_def pt_create_def int4_max_def findUnique_email_def bcrypt_hash_def jwt_sign_def
      deviceWithModel_def bindE_def res_cookie_def res_json_def res_status_def res0_def Let_def
      ex_db_def ex_env_def ex_sys_def ex_alice_def ex_bob_def)

lemma ex_login_alice:
  "o_res (login ex_env ex_db ex_sys
     \<lparr>cookie = None, brand = Some ''Apple'', model = Some ''iPhone'', authorization = None\<rparr>
     ''alice@x.com'' ''pw-alice'' ''admin'')
   = \<lparr>statusCode = 200,
      sent = Some (200, AccessToken
               (JWT (Payload (Some ''alice@x.com'') None (Some ''admin'')) ''a-secret'' 5000 91400)),
      cookie_ops = [SetCookie ''express_jwt''
               (JWT (Payload (Some ''alice@x.com'') None (Some ''admin'')) ''r-secret'' 5000 609800)]\<rparr>"
  by (simp add: login_def login_tx_def cookie_present_def find_user_by_email_def
      findUnique_email_def bcrypt_compare_def jwt_sign_def deviceWithModel_def bindE_def
      pt_create_def int4_max_def res_cookie_def res_json_def res0_def Let_def
      ex_db_def ex_env_def ex_sys_def ex_alice_def ex_bob_def)

lemma ex_refresh_alice:
  "o_res (refreshAuthToken ex_env ex_db ex_sys
     \<lparr>cookie = Some ex_alice_token, brand = None, model = None, authorization = None\<rparr>)
   = \<lparr>statusCode = 200,
      sent = Some (200, AccessToken
               (JWT (Payload (Some ''alice@x.com'') None (Some ''admin'')) ''a-secret'' 5000 5120)),
      cookie_ops = [ClearCookie ''express_jwt'',
                    SetCookie ''express_jwt''
               (JWT (Payload (Some ''alice@x.com'') None (Some ''admin'')) ''r-secret'' 5000 609800)]\<rparr>"
proof -
  let ?rq = "\<lparr>cookie = Some ex_alice_token, brand = None, model = None, authorization = None\<rparr>"
  have c: "cookie ?rq = Some ex_alice_token" by simp
  have ne: "ex_alice_token \<noteq> Raw []" by (simp add: ex_alice_token_def)
  have nz: "filter (\<lambda>r. pt_refresh_token r = ex_alice_token) (personal_tokens ex_db) \<noteq> []"
    by (simp add: ex_db_def)
  have v: "jwt_verify ex_alice_token (REFRESH_TOKEN_SECRET ex_env) (now_ms ex_sys)
       = Some (Payload (Some ''alice@x.com'') None (Some ''admin''))"
    by (simp add: ex_alice_token_def ex_env_def ex_sys_def)
  have pr: "p_role (Payload (Some ''alice@x.com'') None (Some ''admin'')) = Some ''admin''" by simp
  have pe: "p_email (Payload (Some ''alice@x.com'') None (Some ''admin'')) = Some ''alice@x.com''" by simp
  have u: "find_user_by_email ex_db ''admin'' ''alice@x.com'' = Some ex_alice"
    by (simp add: find_user_by_email_def findUnique_email_def ex_db_def ex_alice_def)
  have eq: "refreshAuthToken ex_env ex_db ex_sys ?rq
      = refresh_rotate ex_env ex_db ex_sys (res0\<lparr>cookie_ops := [ClearCookie ''express_jwt'']\<rparr>)
          ex_alice_token"
    by (simp add: refresh_frame [OF c ne] nz)
  have a: "jwt_sign (Payload (Some ''alice@x.com'') None (Some ''admin''))
             (ACCESS_TOKEN_SECRET ex_env) 120 (now_ms ex_sys)
         = JWT (Payload (Some ''alice@x.com'') None (Some ''admin'')) ''a-secret'' 5000 5120"
    by (simp add: jwt_sign_def ex_env_def ex_sys_def)
  have r: "jwt_sign (Payload (Some ''alice@x.com'') None (Some ''admin''))
             (REFRESH_TOKEN_SECRET ex_env) 604800 (now_ms ex_sys)
         = JWT (Payload (Some ''alice@x.com'') None (Some ''admin'')) ''r-secret'' 5000 609800"
    by (simp add: jwt_sign_def ex_env_def ex_sys_def)
  have fits: "now_ms ex_sys div 1000 + 604800 \<le> int4_max"
    by (simp add: ex_sys_def int4_max_def)
  show ?thesis
    unfolding eq refresh_rotate_ok [OF v pr pe u fits] a r by simp
qed

theorem token_lifetimes_witness:
  "issued_access (register ex_env (\<lambda>i r d. Inr d) ex_db ex_sys
     \<lparr>cookie = None, brand = Some ''Apple'', model = Some ''iPhone'', authorization = None\<rparr>
     ''Carol'' ''carol@x.com'' ''pw-carol'' ''Z'')
     = [JWT (Payload (Some ''carol@x.com'') None (Some ''admin'')) ''a-secret'' 5000 91400]
   \<and> signed_for (JWT (Payload (Some ''carol@x.com'') None (Some ''admin'')) ''a-secret'' 5000 91400)
        (ACCESS_TOKEN_SECRET ex_env) 86400 ''carol@x.com'' ''admin''
   \<and> issued_refresh (register ex_env (\<lambda>i r d. Inr d) ex_db ex_sys
     \<lparr>cookie = None, brand = Some ''Apple'', model = Some ''iPhone'', authorization = None\<rparr>
     ''Carol'' ''carol@x.com'' ''pw-carol'' ''Z'')
     = [JWT (Payload (Some ''carol@x.com'') None (Some ''admin'')) ''r-secret'' 5000 609800]
   \<and> signed_for (JWT (Payload (Some ''carol@x.com'') None (Some ''admin'')) ''r-secret'' 5000 609800)
        (REFRESH_TOKEN_SECRET ex_env) 604800 ''carol@x.com'' ''admin''
   \<and> issued_access (login ex_env ex_db ex_sys
     \<lparr>cookie = None, brand = Some ''Apple'', model = Some ''iPhone'', authorization = None\<rparr>
     ''alice@x.com'' ''pw-alice'' ''admin'')
     = [JWT (Payload (Some ''alice@x.com'') None (Some ''admin'')) ''a-secret'' 5000 91400]
   \<and> signed_for (JWT (Payload (Some ''alice@x.com'') None (Some ''admin'')) ''a-secret'' 5000 91400)
        (ACCESS_TOKEN_SECRET ex_env) 86400 ''alice@x.com'' ''admin''
   \<and> issued_refresh (login ex_env ex_db ex_sys
     \<lparr>cookie = None, brand = Some ''Apple'', model = Some ''iPhone'', authorization = None\<rparr>
     ''alice@x.com'' ''pw-alice'' ''admin'')
     = [JWT (Payload (Some ''alice@x.com'') None (Some ''admin'')) ''r-secret'' 5000 609800]
   \<and> signed_for (JWT (Payload (Some ''alice@x.com'') None (Some ''admin'')) ''r-secret'' 5000 609800)
        (REFRESH_TOKEN_SECRET ex_env) 604800 ''alice@x.com'' ''admin''
   \<and> issued_access (refreshAuthToken ex_env ex_db ex_sys
     \<lparr>cookie = Some ex_alice_token, brand = None, model = None, authorization = None\<rparr>)
     = [JWT (Payload (Some ''alice@x.com'') None (Some ''admin'')) ''a-secret'' 5000 5120]
   \<and> (\<exists>e r. signed_for (JWT (Payload (Some ''alice@x.com'') None (Some ''admin'')) ''a-secret'' 5000 5120)
        (ACCESS_TOKEN_SECRET ex_env) 120 e r)
   \<and> issued_refresh (refreshAuthToken ex_env ex_db ex_sys
     \<lparr>cookie = Some ex_alice_token, brand = None, model = None, authorization = None\<rparr>)
     = [JWT (Payload (Some ''alice@x.com'') None (Some ''admin'')) ''r-secret'' 5000 609800]
   \<and> (\<exists>e r. signed_for (JWT (Payload (Some ''alice@x.com'') None (Some ''admin'')) ''r-secret'' 5000 609800)
        (REFRESH_TOKEN_SECRET ex_env) 604800 e r)"
proof -
  let ?rq = "\<lparr>cookie = None, brand = Some ''Apple'', model = Some ''iPhone'', authorization = None\<rparr>"
  let ?rq' = "\<lparr>cookie = Some ex_alice_token, brand = None, model = None, authorization = None\<rparr>"
  let ?reg = "register ex_env (\<lambda>i r d. Inr d) ex_db ex_sys ?rq ''Carol'' ''carol@x.com'' ''pw-carol'' ''Z''"
  let ?log = "login ex_env ex_db ex_sys ?rq ''alice@x.com'' ''pw-alice'' ''admin''"
  let ?ref = "refreshAuthToken ex_env ex_db ex_sys ?rq'"
  have ga: "issued_access ?reg
     = [JWT (Payload (Some ''carol@x.com'') None (Some ''admin'')) ''a-secret'' 5000 91400]"
    by (simp add: ex_register_carol issued_access_def)
  have gr: "issued_refresh ?reg
     = [JWT (Payload (Some ''carol@x.com'') None (Some ''admin'')) ''r-secret'' 5000 609800]"
    by (simp add: ex_register_carol issued_refresh_def)
  have la: "issued_access ?log
     = [JWT (Payload (Some ''alice@x.com'') None (Some ''admin'')) ''a-secret'' 5000 91400]"
    by (simp add: ex_login_alice issued_access_def)
  have lr: "issued_refresh ?log
     = [JWT (Payload (Some ''alice@x.com'') None (Some ''admin'')) ''r-secret'' 5000 609800]"
    by (simp add: ex_login_alice issued_refresh_def)
  have fa: "issued_access ?ref
     = [JWT (Payload (Some ''alice@x.com'') None (Some ''admin'')) ''a-secret'' 5000 5120]"
    by (simp add: ex_refresh_alice issued_access_def)
  have fr: "issued_refresh ?ref
     = [JWT (Payload (Some ''alice@x.com'') None (Some ''admin'')) ''r-secret'' 5000 609800]"
    by (simp add: ex_refresh_alice issued_refresh_def)
  note tg = token_lifetimes [where ev = ex_env and assignRole = "\<lambda>i r d. Inr d" and d = ex_db
      and s = ex_sys and rq = ?rq and name = "''Carol''" and email = "''carol@x.com''"
      and password = "''pw-carol''" and school = "''Z''" and role = "''admin''"]
  note tl = token_lifetimes [where ev = ex_env and assignRole = "\<lambda>i r d. Inr d" and d = ex_db
      and s = ex_sys and rq = ?rq and name = "''Alice''" and email = "''alice@x.com''"
      and password = "''pw-alice''" and school = "''X''" and role = "''admin''"]
  note tf = token_lifetimes [where ev = ex_env and assignRole = "\<lambda>i r d. Inr d" and d = ex_db
      and s = ex_sys and rq = ?rq' and name = "''Alice''" and email = "''alice@x.com''"
      and password = "''pw-alice''" and school = "''X''" and role = "''admin''"]
  have s1: "signed_for (JWT (Payload (Some ''carol@x.com'') None (Some ''admin'')) ''a-secret'' 5000 91400)
        (ACCESS_TOKEN_SECRET ex_env) 86400 ''carol@x.com'' ''admin''"
    using tg [THEN conjunct1] ga by simp
  have s2: "signed_for (JWT (Payload (Some ''carol@x.com'') None (Some ''admin'')) ''r-secret'' 5000 609800)
        (REFRESH_TOKEN_SECRET ex_env) 604800 ''carol@x.com'' ''admin''"
    using tg [THEN conjunct2, THEN conjunct1] gr by simp
  have s3: "signed_for (JWT (Payload (Some ''alice@x.com'') None (Some ''admin'')) ''a-secret'' 5000 91400)
        (ACCESS_TOKEN_SECRET ex_env) 86400 ''alice@x.com'' ''admin''"
    using tl [THEN conjunct2, THEN conjunct2, THEN conjunct1] la by simp
  have s4: "signed_for (JWT (Payload (Some ''alice@x.com'') None (Some ''admin'')) ''r-secret'' 5000 609800)
        (REFRESH_TOKEN_SECRET ex_env) 604800 ''alice@x.com'' ''admin''"
    using tl [THEN conjunct2, THEN conjunct2, THEN conjunct2, THEN conjunct1] lr by simp
  have s5: "\<exists>e r. signed_for (JWT (Payload (Some ''alice@x.com'') None (Some ''admin'')) ''a-secret'' 5000 5120)
        (ACCESS_TOKEN_SECRET ex_env) 120 e r"
    using tf [THEN conjunct2, THEN conjunct2, THEN conjunct2, THEN conjunct2, THEN conjunct1] fa
    by simp
  have s6: "\<exists>e r. signed_for (JWT (Payload (Some ''alice@x.com'') None (Some ''admin'')) ''r-secret'' 5000 609800)
        (REFRESH_TOKEN_SECRET ex_env) 604800 e r"
    using tf [THEN conjunct2, THEN conjunct2, THEN conjunct2, THEN conjunct2, THEN conjunct2] fr
    by simp
  from ga gr la lr fa fr s1 s2 s3 s4 s5 s6 show ?thesis by blast
qed

section \<open>login with bad credentials\<close>

text \<open>
  The two ways a login can name bad credentials. With a wrong password for an existing
  principal the transaction throws the 401 error and the store is rolled back. With no
  principal for the email in the table of the role, \<open>user\<close> is \<open>null\<close> and reading
  \<open>user.password\<close> throws a TypeError before the comparison that leads to the 401 is
  reached; the store is unchanged and no response has been written.
\<close>

lemma login_wrong_password:
  assumes "find_user_by_email d role email = Some u"
    and "\<not> bcrypt_compare password (u_password u)"
  shows "o_err (login ev d s rq email password role) = Some (HttpError 401 ''Invalid email or password'')
     \<and> o_db (login ev d s rq email password role) = d
     \<and> sent (o_res (login ev d s rq email password role)) = None"
  using assms
  by (simp add: login_def login_tx_def res_clearCookie_def res0_def)

lemma login_no_principal:
  assumes "find_user_by_email d role email = None"
  shows "o_err (login ev d s rq email password role)
           = Some (TypeError ''Cannot read properties of null (reading password)'')
     \<and> o_db (login ev d s rq email password role) = d
     \<and> sent (o_res (login ev d s rq email password role)) = None"
  using assms
  by (simp add: login_def login_tx_def res_clearCookie_def res0_def)

text \<open>
  Claim C4, at a failing input. Nobody in \<open>admins\<close> has the email
  \<open>nobody@x.com\<close>; the login does not end in the 401 error \<open>Invalid email or
  password\<close> but in a TypeError, with no response written by the handler.
\<close>

theorem login_unknown_email_throws:
  "find_user_by_email ex_db ''admin'' ''nobody@x.com'' = None
   \<and> login ex_env ex_db ex_sys
        \<lparr>cookie = None, brand = None, model = None, authorization = None\<rparr>
        ''nobody@x.com'' ''pw'' ''admin''
     = \<lparr>o_db = ex_db, o_res = res0,
        o_err = Some (TypeError ''Cannot read properties of null (reading password)'')\<rparr>
   \<and> o_err (login ex_env ex_db ex_sys
        \<lparr>cookie = None, brand = None, model = None, authorization = None\<rparr>
        ''nobody@x.com'' ''pw'' ''admin'')
     \<noteq> Some (HttpError 401 ''Invalid email or password'')"
  by (simp add: login_def login_tx_def cookie_present_def find_user_by_email_def
      findUnique_email_def ex_db_def ex_alice_def ex_bob_def)

section \<open>resetPassword\<close>

text \<open>
  Claim C6, at every input. \<open>resetPassword\<close> never reaches its reply: the call of
  \<open>sendPasswordResetCode\<close> throws a TypeError on \<open>prisma.users\<close>, whether or not a
  principal has the email; the store is unchanged and no response has been written.
\<close>

theorem resetPassword_always_throws:
  "resetPassword d s email role
     = \<lparr>o_db = d, o_res = res0,
        o_err = Some (TypeError ''Cannot read properties of undefined (reading update)'')\<rparr>"
  by (simp add: resetPassword_def sendPasswordResetCode_def prisma_users_def)

section \<open>Well-formed sessions\<close>

text \<open>
  Every handler keeps the sessions well formed: in a store where every session row's
  token names the row's owner, the same holds after any run of any handler. So it holds
  of every store the handlers build from one without sessions.
\<close>

lemma names_owner_alt:
  "names_owner d r =
     (\<exists>role e i. token_names (pt_refresh_token r) = Some (role, e)
        \<and> map_option u_id (find_user_by_email d role e) = Some i \<and> session_of role i r)"
  by (auto simp: names_owner_def split: option.splits)

lemma names_owner_mono:
  assumes "\<And>role e i. map_option u_id (find_user_by_email d role e) = Some i
             \<Longrightarrow> map_option u_id (find_user_by_email d' role e) = Some i"
    and "names_owner d r"
  shows "names_owner d' r"
  using assms unfolding names_owner_alt by blast

lemma sessions_wf_mono:
  assumes "\<And>role e i. map_option u_id (find_user_by_email d role e) = Some i
             \<Longrightarrow> map_option u_id (find_user_by_email d' role e) = Some i"
    and "sessions_wf d"
    and "set (personal_tokens d') \<subseteq> set (personal_tokens d)"
  shows "sessions_wf d'"
  using assms names_owner_mono [of d d']
  unfolding sessions_wf_def list_all_iff by blast

lemma find_user_tables:
  "admins d' = admins d \<Longrightarrow> teachers d' = teachers d \<Longrightarrow> students d' = students d \<Longrightarrow>
   find_user_by_email d' role e = find_user_by_email d role e"
  by (simp add: find_user_by_email_def)

lemma sessions_wf_same_tables:
  assumes "admins d' = admins d" "teachers d' = teachers d" "students d' = students d"
    and "sessions_wf d"
    and "set (personal_tokens d') \<subseteq> set (personal_tokens d)"
  shows "sessions_wf d'"
  using assms(4,5) by (rule sessions_wf_mono [rotated]) (simp add: find_user_tables [OF assms(1,2,3)])

lemma find_map_pres:
  "(\<And>u. u_email (g u) = u_email u) \<Longrightarrow>
   findUnique_email (map g tbl) e = map_option g (findUnique_email tbl e)"
  by (induction tbl) (auto simp: findUnique_email_def)

lemma prisma_update_ids:
  assumes "prisma_update tbl e0 f = Inr tbl'"
    and "\<And>u. u_email (f u) = u_email u" and "\<And>u. u_id (f u) = u_id u"
  shows "map_option u_id (findUnique_email tbl' e) = map_option u_id (findUnique_email tbl e)"
proof -
  let ?g = "\<lambda>u. if u_email u = e0 then f u else u"
  have t: "tbl' = map ?g tbl"
    using assms(1) by (auto simp: prisma_update_def split: option.splits)
  have "findUnique_email (map ?g tbl) e = map_option ?g (findUnique_email tbl e)"
    by (rule find_map_pres) (simp add: assms(2))
  then show ?thesis
    by (cases "findUnique_email tbl e") (simp_all add: t assms(3))
qed

lemma mark_verified_ids:
  assumes "mark_verified r0 user n tbl = Inr tbl'"
  shows "map_option u_id (findUnique_email tbl' e) = map_option u_id (findUnique_email tbl e)"
proof (cases "ru_role user = r0")
  case True
  then have "prisma_update tbl (ru_email user) (\<lambda>u. u\<lparr>u_email_verified_at := Some n\<rparr>) = Inr tbl'"
    using assms by (simp add: mark_verified_def)
  then show ?thesis by (rule prisma_update_ids) simp_all
next
  case False
  then show ?thesis using assms by (simp add: mark_verified_def)
qed

lemma verifyEmail_shape:
  "o_db (verifyEmail d s ru tok c) = d
   \<or> (\<exists>a t st. mark_verified ''admin'' ru (now_ms s) (admins d) = Inr a
        \<and> mark_verified ''teacher'' ru (now_ms s) (teachers d) = Inr t
        \<and> mark_verified ''student'' ru (now_ms s) (students d) = Inr st
        \<and> o_db (verifyEmail d s ru tok c) = d\<lparr>admins := a, teachers := t, students := st\<rparr>)"
  by (auto simp: verifyEmail_def reply_def res_json_def res0_def bindE_def
      split: option.splits sum.splits)

lemma verifyEmail_wf:
  assumes "sessions_wf d"
  shows "sessions_wf (o_db (verifyEmail d s ru tok c))"
proof -
  from verifyEmail_shape [of d s ru tok c] show ?thesis
  proof (elim disjE exE conjE)
    assume "o_db (verifyEmail d s ru tok c) = d"
    then show ?thesis using assms by simp
  next
    fix a t st
    assume a: "mark_verified ''admin'' ru (now_ms s) (admins d) = Inr a"
      and t: "mark_verified ''teacher'' ru (now_ms s) (teachers d) = Inr t"
      and st: "mark_verified ''student'' ru (now_ms s) (students d) = Inr st"
      and eq: "o_db (verifyEmail d s ru tok c) = d\<lparr>admins := a, teachers := t, students := st\<rparr>"
    have ids: "map_option u_id (find_user_by_email (d\<lparr>admins := a, teachers := t, students := st\<rparr>) role e)
        = map_option u_id (find_user_by_email d role e)" for role e
      by (simp add: find_user_by_email_def mark_verified_ids [OF a] mark_verified_ids [OF t]
          mark_verified_ids [OF st])
    show ?thesis
      unfolding eq by (rule sessions_wf_mono [OF _ assms]) (simp_all add: ids)
  qed
qed

lemma vt_create_frame:
  "admins (vt_create d a t st c tok ty ex) = admins d
   \<and> teachers (vt_create d a t st c tok ty ex) = teachers d
   \<and> students (vt_create d a t st c tok ty ex) = students d
   \<and> personal_tokens (vt_create d a t st c tok ty ex) = personal_tokens d
   \<and> seq_personal_tokens (vt_create d a t st c tok ty ex) = seq_personal_tokens d
   \<and> seq_admins (vt_create d a t st c tok ty ex) = seq_admins d"
  by (simp add: vt_create_def)

lemma sendEmailVerifyCode_frame:
  assumes "sendEmailVerifyCode d s email role c = Inr d'"
  shows "admins d' = admins d \<and> teachers d' = teachers d \<and> students d' = students d
     \<and> personal_tokens d' = personal_tokens d \<and> seq_personal_tokens d' = seq_personal_tokens d"
proof -
  consider "role = ''admin''" | "role = ''teacher''" | "role = ''student''"
    | "role \<noteq> ''admin'' \<and> role \<noteq> ''teacher'' \<and> role \<noteq> ''student''"
    by blast
  then show ?thesis
  proof cases
    case 1
    then show ?thesis
      using assms vt_create_frame
      by (auto simp: sendEmailVerifyCode_def bindE_def split: option.splits if_splits)
  next
    case 2
    then show ?thesis
      using assms vt_create_frame
      by (auto simp: sendEmailVerifyCode_def bindE_def split: option.splits if_splits)
  next
    case 3
    then show ?thesis
      using assms vt_create_frame
      by (auto simp: sendEmailVerifyCode_def bindE_def split: option.splits if_splits)
  next
    case 4
    then show ?thesis
      using assms
      by (auto simp: sendEmailVerifyCode_def bindE_def split: if_splits)
  qed
qed

lemma delete_admin_codes_frame:
  assumes "delete_admin_codes d ru = Inr d'"
  shows "admins d' = admins d \<and> teachers d' = teachers d \<and> students d' = students d
     \<and> personal_tokens d' = personal_tokens d"
  using assms by (auto simp: delete_admin_codes_def split: option.splits)

lemma resendEmail_shape:
  "o_db (resendEmail d s ru) = d
   \<or> (\<exists>d1. delete_admin_codes d ru = Inr d1
        \<and> sendEmailVerifyCode d1 s (ru_email ru) ''admin'' (rand_code s) = Inr (o_db (resendEmail d s ru)))"
  by (cases "delete_admin_codes d ru")
     (auto simp: resendEmail_def bindE_def reply_def res_json_def res0_def split: sum.splits)

lemma resendEmail_frame:
  "admins (o_db (resendEmail d s ru)) = admins d
   \<and> teachers (o_db (resendEmail d s ru)) = teachers d
   \<and> students (o_db (resendEmail d s ru)) = students d
   \<and> personal_tokens (o_db (resendEmail d s ru)) = personal_tokens d"
  using resendEmail_shape [of d s ru]
proof (elim disjE exE conjE)
  assume "o_db (resendEmail d s ru) = d"
  then show ?thesis by simp
next
  fix d1
  assume a: "delete_admin_codes d ru = Inr d1"
    and b: "sendEmailVerifyCode d1 s (ru_email ru) ''admin'' (rand_code s) = Inr (o_db (resendEmail d s ru))"
  from delete_admin_codes_frame [OF a] sendEmailVerifyCode_frame [OF b]
  show ?thesis by simp
qed

lemma resendEmail_wf:
  assumes "sessions_wf d"
  shows "sessions_wf (o_db (resendEmail d s ru))"
  using resendEmail_frame [of d s ru]
  by (intro sessions_wf_same_tables [OF _ _ _ assms]) simp_all

lemma resetPassword_db: "o_db (resetPassword d s email role) = d"
  by (simp add: resetPassword_def sendPasswordResetCode_def prisma_users_def)

lemma reply_db: "o_db (reply a b r x) = a \<or> o_db (reply a b r x) = b"
  by (cases x) (simp_all add: reply_def)

lemma reply_db_same: "o_db (reply a a r x) = a"
  by (cases x) (simp_all add: reply_def)

lemma verifyResetCode_db: "o_db (verifyResetCode ev d s tok c) = d"
  by (cases "findFirst_verification d tok c")
     (simp_all add: verifyResetCode_def reply_db_same split: prod.splits)

lemma logout_shape:
  "o_db (logout d rq) = d
   \<or> (\<exists>t. o_db (logout d rq)
          = d\<lparr>personal_tokens := filter (\<lambda>r. pt_refresh_token r \<noteq> t) (personal_tokens d)\<rparr>)"
proof (cases "cookie rq")
  case None
  then show ?thesis by (simp add: logout_def reply_db_same)
next
  case (Some t)
  show ?thesis
  proof (cases "t = Raw []")
    case True
    then show ?thesis using Some by (simp add: logout_def reply_db_same)
  next
    case False
    have "res_clearCookie ''express_jwt'' res0 = Inr (res0\<lparr>cookie_ops := [ClearCookie ''express_jwt'']\<rparr>)"
      by (simp add: res_clearCookie_def res0_def)
    then have "o_db (logout d rq)
        = o_db (reply (d\<lparr>personal_tokens := filter (\<lambda>r. pt_refresh_token r \<noteq> t) (personal_tokens d)\<rparr>) d
                  (res0\<lparr>cookie_ops := [ClearCookie ''express_jwt'']\<rparr>)
                  (res_json (Message ''You are now logged out'')
                     (res0\<lparr>cookie_ops := [ClearCookie ''express_jwt'']\<rparr>)))"
      using Some False by (simp add: logout_def Let_def)
    then show ?thesis
      using reply_db [of "d\<lparr>personal_tokens := filter (\<lambda>r. pt_refresh_token r \<noteq> t) (personal_tokens d)\<rparr>" d]
      by metis
  qed
qed

lemma logout_frame:
  "admins (o_db (logout d rq)) = admins d
   \<and> teachers (o_db (logout d rq)) = teachers d
   \<and> students (o_db (logout d rq)) = students d
   \<and> set (personal_tokens (o_db (logout d rq))) \<subseteq> set (personal_tokens d)"
  using logout_shape [of d rq]
proof (elim disjE exE)
  assume "o_db (logout d rq) = d"
  then show ?thesis by simp
next
  fix t
  assume "o_db (logout d rq)
          = d\<lparr>personal_tokens := filter (\<lambda>r. pt_refresh_token r \<noteq> t) (personal_tokens d)\<rparr>"
  then show ?thesis by simp
qed

lemma deleteMany_frame:
  "admins (deleteMany_personal_tokens d r i) = admins d
   \<and> teachers (deleteMany_personal_tokens d r i) = teachers d
   \<and> students (deleteMany_personal_tokens d r i) = students d
   \<and> set (personal_tokens (deleteMany_personal_tokens d r i)) \<subseteq> set (personal_tokens d)"
  by (simp add: deleteMany_personal_tokens_def)

lemma logout_wf:
  assumes "sessions_wf d"
  shows "sessions_wf (o_db (logout d rq))"
  using logout_frame [of d rq]
  by (intro sessions_wf_same_tables [OF _ _ _ assms]) simp_all

lemma logoutAll_shape:
  "o_db (logoutAll d rq ru) = d
   \<or> (\<exists>r i. o_db (logoutAll d rq ru) = deleteMany_personal_tokens d r i)"
proof (cases "cookie_present (cookie rq)")
  case False
  then show ?thesis by (simp add: logoutAll_def reply_db_same)
next
  case True
  have cc: "res_clearCookie ''express_jwt'' res0 = Inr (res0\<lparr>cookie_ops := [ClearCookie ''express_jwt'']\<rparr>)"
    by (simp add: res_clearCookie_def res0_def)
  show ?thesis
  proof (cases "ru_role ru = ''admin'' \<or> ru_role ru = ''teacher'' \<or> ru_role ru = ''student''")
    case False
    then show ?thesis
      using True by (simp add: logoutAll_def cc reply_db_same)
  next
    case role: True
    show ?thesis
    proof (cases "find_user_by_email d (ru_role ru) (ru_email ru)")
      case None
      then show ?thesis using True role by (simp add: logoutAll_def)
    next
      case (Some user)
      have "o_db (logoutAll d rq ru)
          = o_db (reply (deleteMany_personal_tokens d (Some (ru_role ru)) (u_id user)) d
                    (res0\<lparr>cookie_ops := [ClearCookie ''express_jwt'']\<rparr>)
                    (res_json (Message ''All devices are logged out'')
                       (res0\<lparr>cookie_ops := [ClearCookie ''express_jwt'']\<rparr>)))"
        using True role Some by (simp add: logoutAll_def cc)
      then show ?thesis
        using reply_db [of "deleteMany_personal_tokens d (Some (ru_role ru)) (u_id user)" d]
        by metis
    qed
  qed
qed

lemma logoutAll_frame:
  "admins (o_db (logoutAll d rq ru)) = admins d
   \<and> teachers (o_db (logoutAll d rq ru)) = teachers d
   \<and> students (o_db (logoutAll d rq ru)) = students d
   \<and> set (personal_tokens (o_db (logoutAll d rq ru))) \<subseteq> set (personal_tokens d)"
  using logoutAll_shape [of d rq ru]
proof (elim disjE exE)
  assume "o_db (logoutAll d rq ru) = d"
  then show ?thesis by simp
next
  fix r i
  assume "o_db (logoutAll d rq ru) = deleteMany_personal_tokens d r i"
  then show ?thesis using deleteMany_frame [of d r i] by simp
qed

lemma logoutAll_wf:
  assumes "sessions_wf d"
  shows "sessions_wf (o_db (logoutAll d rq ru))"
  using logoutAll_frame [of d rq ru]
  by (intro sessions_wf_same_tables [OF _ _ _ assms]) simp_all

lemma names_owner_tables:
  "admins d' = admins d \<Longrightarrow> teachers d' = teachers d \<Longrightarrow> students d' = students d \<Longrightarrow>
   names_owner d' r = names_owner d r"
  unfolding names_owner_alt by (simp add: find_user_by_email_def)

lemma token_names_Some:
  "token_names t = Some (role, e) \<Longrightarrow> \<exists>k i x. t = JWT (Payload (Some e) None (Some role)) k i x"
  by (cases t rule: token_names.cases) auto

lemma token_names_sign:
  "token_names (jwt_sign (Payload (Some e) None (Some role)) k life now) = Some (role, e)"
  by (simp add: jwt_sign_def)

lemma sessions_wf_append:
  assumes "sessions_wf d"
    and "admins d' = admins d" "teachers d' = teachers d" "students d' = students d"
    and "personal_tokens d' = personal_tokens d @ [row]"
    and "names_owner d row"
  shows "sessions_wf d'"
proof -
  have "names_owner d' = names_owner d"
    by (rule ext) (rule names_owner_tables [OF assms(2,3,4)])
  then show ?thesis
    using assms(1,5,6) by (simp add: sessions_wf_def)
qed

lemma pt_create_shape:
  assumes "pt_create d a t st tok ex dev = Inr d'"
  shows "admins d' = admins d \<and> teachers d' = teachers d \<and> students d' = students d
     \<and> personal_tokens d' = personal_tokens d @
          [\<lparr>pt_id = seq_personal_tokens d, pt_admin_id = a, pt_teacher_id = t,
            pt_student_id = st, pt_user_device = Some dev, pt_refresh_token = tok,
            pt_expires_at = ex\<rparr>]"
  using assms by (auto simp: pt_create_def split: if_splits)

lemma login_tx_db:
  assumes tx: "login_tx ev d s rq r1 email password role = Inr (d', r')"
  shows "\<exists>user a t st ex dev.
           find_user_by_email d role email = Some user
         \<and> pt_create d a t st (jwt_sign (Payload (Some email) None (Some role))
                                  (REFRESH_TOKEN_SECRET ev) 604800 (now_ms s)) ex dev = Inr d'
         \<and> session_of role (u_id user)
              \<lparr>pt_id = seq_personal_tokens d, pt_admin_id = a, pt_teacher_id = t,
               pt_student_id = st, pt_user_device = Some dev,
               pt_refresh_token = jwt_sign (Payload (Some email) None (Some role))
                                    (REFRESH_TOKEN_SECRET ev) 604800 (now_ms s),
               pt_expires_at = ex\<rparr>"
proof -
  obtain user where u: "find_user_by_email d role email = Some user"
    using tx by (cases "find_user_by_email d role email") (simp_all add: login_tx_def)
  have r: "role = ''admin'' \<or> role = ''teacher'' \<or> role = ''student''"
    using u by (auto simp: find_user_by_email_def split: if_splits)
  have e: "email = u_email user"
    using tx u by (simp add: login_tx_def Let_def split: if_splits)
  from r show ?thesis
  proof (elim disjE)
    assume "role = ''admin''"
    then show ?thesis
      using tx u e
      by (auto simp: login_tx_def Let_def bindE_def jwt_decode_exp_sign session_of_def
          split: if_splits sum.splits)
  next
    assume "role = ''teacher''"
    then show ?thesis
      using tx u e
      by (auto simp: login_tx_def Let_def bindE_def jwt_decode_exp_sign session_of_def
          split: if_splits sum.splits)
  next
    assume "role = ''student''"
    then show ?thesis
      using tx u e
      by (auto simp: login_tx_def Let_def bindE_def jwt_decode_exp_sign session_of_def
          split: if_splits sum.splits)
  qed
qed

lemma login_wf:
  assumes wf: "sessions_wf d"
  shows "sessions_wf (o_db (login ev d s rq email password role))"
proof -
  obtain r1 where c: "(if cookie_present (cookie rq) then res_clearCookie ''express_jwt'' res0 else Inr res0) = Inr r1"
    by (cases "cookie_present (cookie rq)") (simp_all add: res_clearCookie_def res0_def)
  show ?thesis
  proof (cases "login_tx ev d s rq r1 email password role")
    case (Inl e)
    then show ?thesis using wf by (simp add: login_def c)
  next
    case (Inr x)
    obtain d' r' where x: "x = (d', r')" by (cases x)
    from login_tx_db [OF Inr [unfolded x]]
    obtain user a t st ex dev where u: "find_user_by_email d role email = Some user"
      and p: "pt_create d a t st (jwt_sign (Payload (Some email) None (Some role))
                                  (REFRESH_TOKEN_SECRET ev) 604800 (now_ms s)) ex dev = Inr d'"
      and so: "session_of role (u_id user)
              \<lparr>pt_id = seq_personal_tokens d, pt_admin_id = a, pt_teacher_id = t,
               pt_student_id = st, pt_user_device = Some dev,
               pt_refresh_token = jwt_sign (Payload (Some email) None (Some role))
                                    (REFRESH_TOKEN_SECRET ev) 604800 (now_ms s),
               pt_expires_at = ex\<rparr>"
      by blast
    note sh = pt_create_shape [OF p]
    have no: "names_owner d
              \<lparr>pt_id = seq_personal_tokens d, pt_admin_id = a, pt_teacher_id = t,
               pt_student_id = st, pt_user_device = Some dev,
               pt_refresh_token = jwt_sign (Payload (Some email) None (Some role))
                                    (REFRESH_TOKEN_SECRET ev) 604800 (now_ms s),
               pt_expires_at = ex\<rparr>"
      using so by (simp add: names_owner_def token_names_sign u)
    have "sessions_wf d'"
      using sh no by (intro sessions_wf_append [OF wf]) simp_all
    then show ?thesis by (simp add: login_def c Inr x)
  qed
qed

lemma lookup_decoded_Some:
  assumes "lookup_decoded d decoded = Inr (Some user)"
  shows "\<exists>role e. p_role decoded = Some role \<and> p_email decoded = Some e
           \<and> find_user_by_email d role e = Some user"
  using assms
  by (auto simp: lookup_decoded_def split: option.splits if_splits)

lemma refresh_reuse_shape:
  "o_db (refresh_reuse ev d s r1 tok) = d
   \<or> (\<exists>r i. o_db (refresh_reuse ev d s r1 tok) = deleteMany_personal_tokens d r i)"
proof (cases "jwt_verify tok (REFRESH_TOKEN_SECRET ev) (now_ms s)")
  case None
  then show ?thesis
    by (simp add: refresh_reuse_def reply_db_same split: sum.splits)
next
  case (Some decoded)
  show ?thesis
  proof (cases "lookup_decoded d decoded")
    case (Inl e)
    then show ?thesis
      using Some by (simp add: refresh_reuse_def reuse_callback_def bindE_def reply_db_same)
  next
    case (Inr x)
    then show ?thesis
      using Some
      by (cases x) (auto simp: refresh_reuse_def reuse_callback_def bindE_def reply_db_same)
  qed
qed

lemma refresh_rotate_shape:
  "o_db (refresh_rotate ev d s r1 tok) = d
   \<or> (\<exists>decoded user. jwt_verify tok (REFRESH_TOKEN_SECRET ev) (now_ms s) = Some decoded
        \<and> lookup_decoded d decoded = Inr (Some user)
        \<and> o_db (refresh_rotate ev d s r1 tok)
            = d\<lparr>personal_tokens :=
                  map (\<lambda>r. if pt_refresh_token r = tok
                            then r\<lparr>pt_refresh_token :=
                                     jwt_sign (Payload (Some (u_email user)) None (p_role decoded))
                                       (REFRESH_TOKEN_SECRET ev) 604800 (now_ms s),
                                   pt_expires_at := now_ms s div 1000 + 604800\<rparr>
                            else r)
                    (personal_tokens d)\<rparr>)"
proof (cases "jwt_verify tok (REFRESH_TOKEN_SECRET ev) (now_ms s)")
  case None
  then show ?thesis by (simp add: refresh_rotate_def reply_db_same)
next
  case (Some decoded)
  show ?thesis
  proof (cases "lookup_decoded d decoded")
    case (Inl e)
    then show ?thesis using Some by (simp add: refresh_rotate_def)
  next
    case (Inr x)
    show ?thesis
    proof (cases x)
      case None
      then show ?thesis using Some Inr by (simp add: refresh_rotate_def reply_db_same)
    next
      case (Some user)
      show ?thesis
      proof (cases "int4_max < now_ms s div 1000 + 604800")
        case True
        then show ?thesis
          using \<open>jwt_verify tok (REFRESH_TOKEN_SECRET ev) (now_ms s) = Some decoded\<close> Inr Some
          by (simp add: refresh_rotate_def Let_def jwt_decode_exp_sign)
      next
        case False
        then show ?thesis
          using \<open>jwt_verify tok (REFRESH_TOKEN_SECRET ev) (now_ms s) = Some decoded\<close> Inr Some
          by (auto simp: refresh_rotate_def Let_def jwt_decode_exp_sign reply_db_same
              split: sum.splits)
      qed
    qed
  qed
qed

lemma list_all_map_pres:
  "(\<And>r. P r \<Longrightarrow> P (f r)) \<Longrightarrow> list_all P xs \<Longrightarrow> list_all P (map f xs)"
  by (induction xs) auto

lemma jwt_verify_payload:
  "jwt_verify (JWT p k i x) secret now = Some decoded \<Longrightarrow> decoded = p"
  by (simp split: if_splits)

lemma rotate_wf:
  assumes wf: "sessions_wf d"
    and v: "jwt_verify tok (REFRESH_TOKEN_SECRET ev) (now_ms s) = Some decoded"
    and l: "lookup_decoded d decoded = Inr (Some user)"
  shows "sessions_wf (d\<lparr>personal_tokens :=
                  map (\<lambda>r. if pt_refresh_token r = tok
                            then r\<lparr>pt_refresh_token :=
                                     jwt_sign (Payload (Some (u_email user)) None (p_role decoded))
                                       (REFRESH_TOKEN_SECRET ev) 604800 (now_ms s),
                                   pt_expires_at := ex\<rparr>
                            else r)
                    (personal_tokens d)\<rparr>)"
proof -
  let ?new = "jwt_sign (Payload (Some (u_email user)) None (p_role decoded))
                (REFRESH_TOKEN_SECRET ev) 604800 (now_ms s)"
  let ?f = "\<lambda>r. if pt_refresh_token r = tok
                 then r\<lparr>pt_refresh_token := ?new, pt_expires_at := ex\<rparr> else r"
  let ?d' = "d\<lparr>personal_tokens := map ?f (personal_tokens d)\<rparr>"
  obtain role e where pr: "p_role decoded = Some role" and pe: "p_email decoded = Some e"
    and fu: "find_user_by_email d role e = Some user"
    using lookup_decoded_Some [OF l] by blast
  have ue: "u_email user = e" by (rule find_user_email [OF fu])
  have step: "names_owner d (?f r)" if no: "names_owner d r" for r
  proof (cases "pt_refresh_token r = tok")
    case False
    then show ?thesis using no by simp
  next
    case True
    obtain role0 e0 i0 where tn: "token_names (pt_refresh_token r) = Some (role0, e0)"
      and f0: "map_option u_id (find_user_by_email d role0 e0) = Some i0"
      and s0: "session_of role0 i0 r"
      using no unfolding names_owner_alt by blast
    obtain k i x where tk: "tok = JWT (Payload (Some e0) None (Some role0)) k i x"
      using token_names_Some [OF tn] True by auto
    have "decoded = Payload (Some e0) None (Some role0)"
      using v unfolding tk by (rule jwt_verify_payload)
    then have re: "role = role0" "e = e0" using pr pe by simp_all
    have s1: "session_of role0 i0 (r\<lparr>pt_refresh_token := ?new, pt_expires_at := ex\<rparr>)"
      using s0 by (simp add: session_of_def)
    have "names_owner d (r\<lparr>pt_refresh_token := ?new, pt_expires_at := ex\<rparr>)"
      unfolding names_owner_alt
      using f0 s1 by (auto simp: pr ue re token_names_sign)
    then show ?thesis using True by simp
  qed
  have "list_all (names_owner d) (personal_tokens d)"
    using wf by (simp add: sessions_wf_def)
  then have "list_all (names_owner d) (map ?f (personal_tokens d))"
    by (rule list_all_map_pres [rotated]) (rule step)
  moreover have "names_owner ?d' = names_owner d"
    by (rule ext) (rule names_owner_tables, simp_all)
  ultimately show ?thesis by (simp add: sessions_wf_def)
qed

lemma deleteMany_wf:
  assumes "sessions_wf d"
  shows "sessions_wf (deleteMany_personal_tokens d r i)"
  using deleteMany_frame [of d r i]
  by (intro sessions_wf_same_tables [OF _ _ _ assms]) simp_all

lemma refresh_wf:
  assumes wf: "sessions_wf d"
  shows "sessions_wf (o_db (refreshAuthToken ev d s rq))"
proof (cases "cookie rq")
  case None
  then show ?thesis using wf by (simp add: refreshAuthToken_def reply_db_same)
next
  case (Some tok)
  show ?thesis
  proof (cases "tok = Raw []")
    case True
    then show ?thesis using wf Some by (simp add: refreshAuthToken_def reply_db_same)
  next
    case False
    note fr = refresh_frame [OF Some False, of ev d s]
    show ?thesis
    proof (cases "filter (\<lambda>r. pt_refresh_token r = tok) (personal_tokens d) = []")
      case True
      from refresh_reuse_shape [of ev d s "res0\<lparr>cookie_ops := [ClearCookie ''express_jwt'']\<rparr>" tok]
      show ?thesis
        using wf deleteMany_wf [OF wf] by (auto simp: fr True)
    next
      case nz: False
      from refresh_rotate_shape [of ev d s "res0\<lparr>cookie_ops := [ClearCookie ''express_jwt'']\<rparr>" tok]
      show ?thesis
      proof (elim disjE exE conjE)
        assume "o_db (refresh_rotate ev d s (res0\<lparr>cookie_ops := [ClearCookie ''express_jwt'']\<rparr>) tok) = d"
        then show ?thesis using wf by (simp add: fr nz)
      next
        fix decoded user
        assume v: "jwt_verify tok (REFRESH_TOKEN_SECRET ev) (now_ms s) = Some decoded"
          and l: "lookup_decoded d decoded = Inr (Some user)"
          and eq: "o_db (refresh_rotate ev d s (res0\<lparr>cookie_ops := [ClearCookie ''express_jwt'']\<rparr>) tok)
            = d\<lparr>personal_tokens :=
                  map (\<lambda>r. if pt_refresh_token r = tok
                            then r\<lparr>pt_refresh_token :=
                                     jwt_sign (Payload (Some (u_email user)) None (p_role decoded))
                                       (REFRESH_TOKEN_SECRET ev) 604800 (now_ms s),
                                   pt_expires_at := now_ms s div 1000 + 604800\<rparr>
                            else r)
                    (personal_tokens d)\<rparr>"
        show ?thesis
          using rotate_wf [OF wf v l, of "now_ms s div 1000 + 604800"]
          by (simp add: fr nz eq)
      qed
    qed
  qed
qed

lemma set_password_frame:
  assumes "set_password d role user h = Inr d'"
  shows "personal_tokens d' = personal_tokens d
     \<and> (\<forall>r e. map_option u_id (find_user_by_email d' r e)
                = map_option u_id (find_user_by_email d r e))"
proof -
  let ?g = "\<lambda>u. if u_email u = u_email user then u\<lparr>u_password := h\<rparr> else u"
  have g: "map_option u_id (findUnique_email (map ?g tbl) e) = map_option u_id (findUnique_email tbl e)"
    for tbl e
  proof -
    have "findUnique_email (map ?g tbl) e = map_option ?g (findUnique_email tbl e)"
      by (rule find_map_pres) simp
    then show ?thesis by (cases "findUnique_email tbl e") simp_all
  qed
  consider "role = Some ''admin''" | "role = Some ''teacher''" | "role = Some ''student''"
    | "role \<noteq> Some ''admin'' \<and> role \<noteq> Some ''teacher'' \<and> role \<noteq> Some ''student''"
    by blast
  then show ?thesis
  proof cases
    case 1
    then show ?thesis
      using assms g by (auto simp: set_password_def find_user_by_email_def split: option.splits)
  next
    case 2
    then show ?thesis
      using assms g by (auto simp: set_password_def find_user_by_email_def split: option.splits)
  next
    case 3
    then show ?thesis
      using assms g by (auto simp: set_password_def find_user_by_email_def split: option.splits)
  next
    case 4
    then show ?thesis
      using assms by (auto simp: set_password_def)
  qed
qed

lemma updatePassword_tx_wf:
  assumes wf: "sessions_wf d"
    and tx: "updatePassword_tx d s decoded password = Inr (d', r')"
  shows "sessions_wf d'"
proof (cases "lookup_by_id d decoded")
  case (Inl e)
  then show ?thesis using tx by (simp add: updatePassword_tx_def bindE_def)
next
  case (Inr x)
  show ?thesis
  proof (cases x)
    case None
    then show ?thesis
      using tx Inr wf
      by (auto simp: updatePassword_tx_def bindE_def split: sum.splits)
  next
    case (Some u)
    let ?d1 = "deleteMany_personal_tokens d (p_role decoded) (u_id u)"
    have sp: "set_password ?d1 (p_role decoded) u (bcrypt_hash password 12 (salt s)) = Inr d'"
      using tx Inr Some
      by (auto simp: updatePassword_tx_def bindE_def Let_def split: sum.splits)
    note fr = set_password_frame [OF sp]
    have w1: "sessions_wf ?d1" by (rule deleteMany_wf [OF wf])
    show ?thesis
      using fr by (intro sessions_wf_mono [OF _ w1]) simp_all
  qed
qed

lemma updatePassword_wf:
  assumes wf: "sessions_wf d"
  shows "sessions_wf (o_db (updatePassword ev d s rq password))"
proof (cases "authorization rq")
  case None
  then show ?thesis using wf by (simp add: updatePassword_def reply_db_same)
next
  case (Some h)
  show ?thesis
  proof (cases h)
    case (OtherHeader x)
    then show ?thesis using wf Some by (simp add: updatePassword_def reply_db_same)
  next
    case (Bearer tk)
    show ?thesis
    proof (cases "jwt_verify tk (RESET_TOKEN_SECRET ev) (now_ms s)")
      case None
      then show ?thesis using wf Some Bearer by (simp add: updatePassword_def reply_db_same)
    next
      case v: (Some decoded)
      show ?thesis
      proof (cases "updatePassword_tx d s decoded password")
        case (Inl e)
        then show ?thesis using wf Some Bearer v by (simp add: updatePassword_def)
      next
        case (Inr x)
        obtain d' r' where x: "x = (d', r')" by (cases x)
        have "sessions_wf d'" by (rule updatePassword_tx_wf [OF wf Inr [unfolded x]])
        then show ?thesis
          using Some Bearer v Inr x by (simp add: updatePassword_def reply_db_same)
      qed
    qed
  qed
qed

lemma find_append_kept:
  "findUnique_email tbl e = Some u \<Longrightarrow> findUnique_email (tbl @ [a]) e = Some u"
  by (induction tbl) (auto simp: findUnique_email_def)

lemma find_append_new:
  "findUnique_email tbl e = None \<Longrightarrow> u_email a = e \<Longrightarrow> findUnique_email (tbl @ [a]) e = Some a"
  by (induction tbl) (auto simp: findUnique_email_def split: if_splits)

lemma admins_create_shape:
  assumes "admins_create d name email h school = Inr (d1, admin)"
  shows "admins d1 = admins d @ [admin] \<and> teachers d1 = teachers d \<and> students d1 = students d
     \<and> personal_tokens d1 = personal_tokens d \<and> u_email admin = email
     \<and> findUnique_email (admins d) email = None"
  using assms by (auto simp: admins_create_def Let_def split: option.splits)

lemma register_tx_wf:
  assumes wf: "sessions_wf d"
    and ks: "keeps_sessions assignRole"
    and tx: "register_tx ev assignRole d s rq name email h school = Inr (d', r')"
  shows "sessions_wf d'"
proof -
  obtain d1 admin where ac: "admins_create d name email h school = Inr (d1, admin)"
    using tx by (cases "admins_create d name email h school")
      (auto simp: register_tx_def bindE_def)
  obtain d2 where ar: "assignRole (u_id admin) ''admin'' d1 = Inr d2"
    using tx ac by (cases "assignRole (u_id admin) ''admin'' d1")
      (auto simp: register_tx_def bindE_def)
  obtain d3 where se: "sendEmailVerifyCode d2 s email ''admin'' (rand_code s) = Inr d3"
    using tx ac ar by (cases "sendEmailVerifyCode d2 s email ''admin'' (rand_code s)")
      (auto simp: register_tx_def bindE_def)
  let ?tok = "jwt_sign (Payload (Some email) None (Some ''admin''))
                (REFRESH_TOKEN_SECRET ev) 604800 (now_ms s)"
  note a = admins_create_shape [OF ac]
  have pc: "pt_create d3 (Some (u_id admin)) None None ?tok (now_ms s div 1000 + 604800)
              (deviceWithModel (brand rq) (model rq)) = Inr d'"
    using tx ac ar se a
    by (auto simp: register_tx_def bindE_def Let_def jwt_decode_exp_sign split: sum.splits)
  note b = ks [unfolded keeps_sessions_def, rule_format, OF ar]
  note c = sendEmailVerifyCode_frame [OF se]
  note p = pt_create_shape [OF pc]
  have t3: "admins d3 = admins d @ [admin]" "teachers d3 = teachers d" "students d3 = students d"
    "personal_tokens d3 = personal_tokens d"
    using a b c by simp_all
  have ids: "map_option u_id (find_user_by_email d3 role e) = Some i"
    if "map_option u_id (find_user_by_email d role e) = Some i" for role e i
    using that by (auto simp: find_user_by_email_def t3 find_append_kept split: if_splits)
  have w3: "sessions_wf d3"
    by (rule sessions_wf_mono [OF ids wf]) (simp_all add: t3)
  have fa: "find_user_by_email d3 ''admin'' email = Some admin"
    using a by (simp add: find_user_by_email_def t3 find_append_new)
  have no: "names_owner d3
      \<lparr>pt_id = seq_personal_tokens d3, pt_admin_id = Some (u_id admin), pt_teacher_id = None,
       pt_student_id = None, pt_user_device = Some (deviceWithModel (brand rq) (model rq)),
       pt_refresh_token = ?tok, pt_expires_at = now_ms s div 1000 + 604800\<rparr>"
    by (simp add: names_owner_def token_names_sign fa session_of_def)
  show ?thesis
    using p no by (intro sessions_wf_append [OF w3]) simp_all
qed

lemma register_wf:
  assumes wf: "sessions_wf d" and ks: "keeps_sessions assignRole"
  shows "sessions_wf (o_db (register ev assignRole d s rq name email password school))"
proof (cases "register_tx ev assignRole d s rq name email (bcrypt_hash password 12 (salt s)) school")
  case (Inl e)
  then show ?thesis using wf by (simp add: register_def)
next
  case (Inr x)
  obtain d' r' where x: "x = (d', r')" by (cases x)
  have "sessions_wf d'" by (rule register_tx_wf [OF wf ks Inr [unfolded x]])
  then show ?thesis by (simp add: register_def Inr x)
qed

lemma reachable_sessions_wf:
  assumes ks: "keeps_sessions assignRole"
    and r: "reachable ev assignRole d"
  shows "sessions_wf d"
  using r
proof (induction rule: reachable.induct)
  case (start d)
  then show ?case by (simp add: sessions_wf_def)
next
  case (by_register d s rq name email password school)
  then show ?case by (simp add: register_wf ks)
next
  case (by_resendEmail d s ru)
  then show ?case by (simp add: resendEmail_wf)
next
  case (by_verifyEmail d s ru tok c)
  then show ?case by (simp add: verifyEmail_wf)
next
  case (by_login d s rq email password role)
  then show ?case by (simp add: login_wf)
next
  case (by_refresh d s rq)
  then show ?case by (simp add: refresh_wf)
next
  case (by_logout d rq)
  then show ?case by (simp add: logout_wf)
next
  case (by_logoutAll d rq ru)
  then show ?case by (simp add: logoutAll_wf)
next
  case (by_resetPassword d s email role)
  then show ?case by (simp add: resetPassword_db)
next
  case (by_verifyResetCode d s tok c)
  then show ?case by (simp add: verifyResetCode_db)
next
  case (by_updatePassword d s rq password)
  then show ?case by (simp add: updatePassword_wf)
qed

section \<open>Refresh rotation\<close>






end
